theory Spec2Isabelle
  imports Main
begin

section \<open>JavaScript values\<close>

text \<open>
  The values that cross the bridge are plain data: \<open>undefined\<close>, \<open>null\<close>, booleans,
  numbers, strings, arrays and objects. An object is the list of its own enumerable
  properties in enumeration order, with pairwise distinct keys. Numbers are the integers
  (printed in decimal, as JavaScript prints an integer below \<open>10^21\<close>); a string is a
  list of code units below 256.
\<close>

datatype jsval =
    JUndefined
  | JNull
  | JBool bool
  | JNum int
  | JStr string
  | JArr "jsval list"
  | JObj "(string \<times> jsval) list"

type_synonym props = "(string \<times> jsval) list"

text \<open>ToBoolean, as used by \<open>if (x)\<close>, \<open>x ? a : b\<close>, \<open>!x\<close> and \<open>!!x\<close>.\<close>

fun truthy :: "jsval \<Rightarrow> bool" where
  "truthy JUndefined = False"
| "truthy JNull = False"
| "truthy (JBool b) = b"
| "truthy (JNum n) = (n \<noteq> 0)"
| "truthy (JStr s) = (s \<noteq> [])"
| "truthy (JArr xs) = True"
| "truthy (JObj kvs) = True"

fun nullish :: "jsval \<Rightarrow> bool" where
  "nullish JUndefined = True"
| "nullish JNull = True"
| "nullish v = False"

text \<open>\<open>typeof v === 'string'\<close>.\<close>

fun is_string :: "jsval \<Rightarrow> bool" where
  "is_string (JStr s) = True"
| "is_string v = False"

text \<open>
  \<open>v != false\<close>. The loose comparison with a boolean compares \<open>v\<close> with the number 0:
  \<open>undefined\<close> and \<open>null\<close> equal nothing but each other, a boolean and a number are
  compared as numbers. A string, an array and an object are first turned into a number
  (\<open>'' != false\<close>, \<open>'0' != false\<close> and \<open>[] != false\<close> are false, and an object with an
  own \<open>toString\<close> property that is no function makes the comparison throw); this
  conversion is not modelled, and on these three shapes the function answers as for a
  value that is no number. The Mechanism type declares \<open>handled?: boolean\<close>: every
  theorem below that depends on this comparison assumes \<open>handledTyped\<close>, so that none
  reads it on a string, an array or an object.
\<close>

fun loose_neq_false :: "jsval \<Rightarrow> bool" where
  "loose_neq_false JUndefined = True"
| "loose_neq_false JNull = True"
| "loose_neq_false (JBool b) = b"
| "loose_neq_false (JNum n) = (n \<noteq> 0)"
| "loose_neq_false (JStr s) = True"
| "loose_neq_false (JArr xs) = True"
| "loose_neq_false (JObj kvs) = True"

subsection \<open>Numbers and strings as text\<close>

fun show_nat :: "nat \<Rightarrow> string" where
  "show_nat n =
     (if n < 10 then [''0123456789'' ! n]
      else show_nat (n div 10) @ [''0123456789'' ! (n mod 10)])"

declare show_nat.simps [simp del]

definition show_int :: "int \<Rightarrow> string" where
  "show_int i = (if i < 0 then CHR ''-'' # show_nat (nat (- i)) else show_nat (nat i))"

definition hex_digit :: "nat \<Rightarrow> char" where
  "hex_digit d = ''0123456789abcdef'' ! d"

text \<open>QuoteJSONString: the escapes of \<open>JSON.stringify\<close> for one code unit.\<close>

definition quote_char :: "char \<Rightarrow> string" where
  "quote_char c =
     (if c = CHR 0x22 then [CHR 0x5C, CHR 0x22]
      else if c = CHR 0x5C then [CHR 0x5C, CHR 0x5C]
      else if c = CHR 0x08 then [CHR 0x5C, CHR ''b'']
      else if c = CHR 0x0C then [CHR 0x5C, CHR ''f'']
      else if c = CHR 0x0A then [CHR 0x5C, CHR ''n'']
      else if c = CHR 0x0D then [CHR 0x5C, CHR ''r'']
      else if c = CHR 0x09 then [CHR 0x5C, CHR ''t'']
      else if (of_char c :: nat) < 32
        then [CHR 0x5C, CHR ''u'', CHR ''0'', CHR ''0''] @
             [hex_digit ((of_char c :: nat) div 16), hex_digit ((of_char c :: nat) mod 16)]
      else [c])"

definition quote :: "string \<Rightarrow> string" where
  "quote s = CHR 0x22 # concat (map quote_char s) @ [CHR 0x22]"

fun join :: "string \<Rightarrow> string list \<Rightarrow> string" where
  "join sep [] = []"
| "join sep [x] = x"
| "join sep (x # y # ys) = x @ sep @ join sep (y # ys)"

subsection \<open>\<open>JSON.stringify\<close> and \<open>JSON.parse\<close>\<close>

text \<open>
  \<open>stringify v\<close> is \<open>None\<close> where \<open>JSON.stringify(v)\<close> is \<open>undefined\<close>. A member of an
  object whose value has no text is left out; such an element of an array is printed
  as \<open>null\<close>.
\<close>

fun stringify :: "jsval \<Rightarrow> string option"
  and stringify_elems :: "jsval list \<Rightarrow> string list"
  and stringify_members :: "(string \<times> jsval) list \<Rightarrow> string list" where
  "stringify JUndefined = None"
| "stringify JNull = Some ''null''"
| "stringify (JBool b) = Some (if b then ''true'' else ''false'')"
| "stringify (JNum n) = Some (show_int n)"
| "stringify (JStr s) = Some (quote s)"
| "stringify (JArr xs) = Some (''['' @ join '','' (stringify_elems xs) @ '']'')"
| "stringify (JObj kvs) = Some (''{'' @ join '','' (stringify_members kvs) @ ''}'')"
| "stringify_elems [] = []"
| "stringify_elems (x # xs) =
     (case stringify x of None \<Rightarrow> ''null'' | Some t \<Rightarrow> t) # stringify_elems xs"
| "stringify_members [] = []"
| "stringify_members (kv # kvs) =
     (case stringify (snd kv) of
        None \<Rightarrow> stringify_members kvs
      | Some t \<Rightarrow> (quote (fst kv) @ '':'' @ t) # stringify_members kvs)"

text \<open>\<open>JSON.stringify\<close> of an object: always a text.\<close>

definition stringify_object :: "props \<Rightarrow> string" where
  "stringify_object kvs = ''{'' @ join '','' (stringify_members kvs) @ ''}''"

text \<open>\<open>JSON.stringify(v)\<close> as a value: a string, or \<open>undefined\<close>.\<close>

definition JSON_stringify :: "jsval \<Rightarrow> jsval" where
  "JSON_stringify v = (case stringify v of None \<Rightarrow> JUndefined | Some t \<Rightarrow> JStr t)"

text \<open>
  \<open>JSON.parse(JSON.stringify(v))\<close>: the copy of \<open>v\<close> that its text denotes. \<open>None\<close>
  where \<open>JSON.stringify(v)\<close> is \<open>undefined\<close> (which \<open>JSON.parse\<close> does not accept).
\<close>

fun json_roundtrip :: "jsval \<Rightarrow> jsval option"
  and roundtrip_elems :: "jsval list \<Rightarrow> jsval list"
  and roundtrip_members :: "(string \<times> jsval) list \<Rightarrow> (string \<times> jsval) list" where
  "json_roundtrip JUndefined = None"
| "json_roundtrip JNull = Some JNull"
| "json_roundtrip (JBool b) = Some (JBool b)"
| "json_roundtrip (JNum n) = Some (JNum n)"
| "json_roundtrip (JStr s) = Some (JStr s)"
| "json_roundtrip (JArr xs) = Some (JArr (roundtrip_elems xs))"
| "json_roundtrip (JObj kvs) = Some (JObj (roundtrip_members kvs))"
| "roundtrip_elems [] = []"
| "roundtrip_elems (x # xs) =
     (case json_roundtrip x of None \<Rightarrow> JNull | Some y \<Rightarrow> y) # roundtrip_elems xs"
| "roundtrip_members [] = []"
| "roundtrip_members (kv # kvs) =
     (case json_roundtrip (snd kv) of
        None \<Rightarrow> roundtrip_members kvs
      | Some y \<Rightarrow> (fst kv, y) # roundtrip_members kvs)"

text \<open>
  What \<open>JSON.parse(JSON.stringify(...))\<close> makes of a property or element \<open>v\<close> of the
  value it copies: the copy of \<open>v\<close>; a property without a text is gone, and reads as
  \<open>undefined\<close>.
\<close>

definition roundtrip_value :: "jsval \<Rightarrow> jsval" where
  "roundtrip_value v = (case json_roundtrip v of None \<Rightarrow> JUndefined | Some y \<Rightarrow> y)"

subsection \<open>Properties\<close>

text \<open>\<open>o[k]\<close> on the property list of an object: \<open>undefined\<close> for a missing key.\<close>

definition lookup :: "props \<Rightarrow> string \<Rightarrow> jsval" where
  "lookup kvs k = (case map_of kvs k of None \<Rightarrow> JUndefined | Some v \<Rightarrow> v)"

text \<open>\<open>o[k] = v\<close>: an existing key keeps its place, a new key goes last.\<close>

fun assign :: "props \<Rightarrow> string \<Rightarrow> jsval \<Rightarrow> props" where
  "assign [] k v = [(k, v)]"
| "assign (kv # kvs) k v = (if fst kv = k then (k, v) # kvs else kv # assign kvs k v)"

text \<open>\<open>delete o[k]\<close>.\<close>

definition delete_key :: "props \<Rightarrow> string \<Rightarrow> props" where
  "delete_key kvs k = filter (\<lambda>kv. fst kv \<noteq> k) kvs"

text \<open>
  The own enumerable properties of a value, as \<open>Object.keys\<close>, the spread \<open>{...v}\<close> and
  a rest pattern see them: the members of an object, the indexed elements of an array,
  the indexed characters of a string, nothing for the other values.
\<close>

fun own_props :: "jsval \<Rightarrow> props" where
  "own_props (JObj kvs) = kvs"
| "own_props (JArr xs) = zip (map show_nat [0..<length xs]) xs"
| "own_props (JStr s) = zip (map show_nat [0..<length s]) (map (\<lambda>c. JStr [c]) s)"
| "own_props v = []"

text \<open>
  \<open>v?.k\<close>: \<open>undefined\<close> on \<open>undefined\<close> and \<open>null\<close>, the data property otherwise.
  (Of the names read below, an array inherits only \<open>values\<close>, a method; its element \<open>0\<close>
  is \<open>undefined\<close>, so the chain in which it is read ends in \<open>undefined\<close> either way.)
\<close>

definition opt_get :: "jsval \<Rightarrow> string \<Rightarrow> jsval" where
  "opt_get v k = (if nullish v then JUndefined else lookup (own_props v) k)"

section \<open>The native bridge\<close>

datatype error = NativeClientError | DisabledNativeError | TypeError | NativeRejection

datatype 'a promise = Resolves 'a | Rejects

text \<open>
  The module \<open>RNSentry\<close>, as the replies it gives: \<open>NativeModules.RNSentry\<close> is a module
  or \<open>undefined\<close>, so the bridge receives a \<open>native_module option\<close>.
\<close>

record native_module =
  reply_getStringBytesLength :: "string \<Rightarrow> nat promise"
  reply_captureEnvelope :: "jsval \<Rightarrow> bool promise"
  reply_initNativeSdk :: "jsval \<Rightarrow> bool promise"
  reply_fetchNativeRelease :: "jsval promise"
  reply_fetchNativeSdkInfo :: "jsval promise"
  reply_fetchNativeDeviceContexts :: "jsval promise"
  reply_fetchNativeAppStart :: "jsval promise"
  reply_fetchNativeFrames :: "jsval promise"
  reply_closeNativeSdk :: "unit promise"

datatype native_call =
    Native_getStringBytesLength string
  | Native_captureEnvelope jsval
  | Native_initNativeSdk jsval
  | Native_fetchNativeRelease
  | Native_fetchNativeSdkInfo
  | Native_fetchNativeDeviceContexts
  | Native_fetchNativeAppStart
  | Native_fetchNativeFrames
  | Native_crash
  | Native_setUser jsval jsval
  | Native_setTag string jsval
  | Native_setExtra string jsval
  | Native_addBreadcrumb jsval
  | Native_clearBreadcrumbs
  | Native_setContext string jsval
  | Native_closeNativeSdk
  | Native_disableNativeFramesTracking

text \<open>The mutable fields of \<open>NATIVE\<close>.\<close>

record wrapper =
  enableNative :: bool
  nativeIsReady :: bool
  platform :: string

text \<open>
  What a call of the bridge leaves behind: the fields of \<open>NATIVE\<close> afterwards, the native
  calls it made in order, the warnings it logged, and what it returned or threw (for an
  async function: what its promise resolved or rejected with).
\<close>

record 'a outcome =
  after :: wrapper
  calls :: "native_call list"
  warnings :: "string list"
  result :: "error + 'a"

definition returns :: "wrapper \<Rightarrow> native_call list \<Rightarrow> 'a \<Rightarrow> 'a outcome" where
  "returns w cs v = \<lparr>after = w, calls = cs, warnings = [], result = Inr v\<rparr>"

definition throws :: "wrapper \<Rightarrow> native_call list \<Rightarrow> error \<Rightarrow> 'a outcome" where
  "throws w cs e = \<lparr>after = w, calls = cs, warnings = [], result = Inl e\<rparr>"

text \<open>\<open>await p\<close> as the last step of an async function.\<close>

definition settle :: "wrapper \<Rightarrow> native_call list \<Rightarrow> 'a promise \<Rightarrow> 'a outcome" where
  "settle w cs p = (case p of Resolves v \<Rightarrow> returns w cs v | Rejects \<Rightarrow> throws w cs NativeRejection)"

definition isModuleLoaded :: "native_module option \<Rightarrow> bool" where
  "isModuleLoaded module = (module \<noteq> None)"

subsection \<open>Severity levels\<close>

definition processLevel :: "jsval \<Rightarrow> jsval" where
  "processLevel level =
     (if level = JStr ''critical'' then JStr ''fatal''
      else if level = JStr ''log'' then JStr ''debug''
      else level)"

text \<open>
  The callback of \<open>event.breadcrumbs?.map\<close>: reading \<open>breadcrumb.level\<close> throws a
  TypeError on \<open>undefined\<close> and \<open>null\<close>.
\<close>

definition processBreadcrumb :: "jsval \<Rightarrow> error + jsval" where
  "processBreadcrumb breadcrumb =
     (if nullish breadcrumb then Inl TypeError
      else Inr (JObj (assign (own_props breadcrumb) ''level''
             (if truthy (lookup (own_props breadcrumb) ''level'')
              then processLevel (lookup (own_props breadcrumb) ''level'')
              else JUndefined))))"

fun mapBreadcrumbs :: "jsval list \<Rightarrow> error + jsval list" where
  "mapBreadcrumbs [] = Inr []"
| "mapBreadcrumbs (b # bs) =
     (case processBreadcrumb b of
        Inl e \<Rightarrow> Inl e
      | Inr b' \<Rightarrow> (case mapBreadcrumbs bs of Inl e \<Rightarrow> Inl e | Inr bs' \<Rightarrow> Inr (b' # bs')))"

text \<open>
  \<open>event.breadcrumbs?.map(...)\<close>: \<open>undefined\<close> on \<open>undefined\<close> and \<open>null\<close>; of the values
  modelled only an array has a \<open>map\<close> to call.
\<close>

fun processBreadcrumbs :: "jsval \<Rightarrow> error + jsval" where
  "processBreadcrumbs JUndefined = Inr JUndefined"
| "processBreadcrumbs JNull = Inr JUndefined"
| "processBreadcrumbs (JArr bs) =
     (case mapBreadcrumbs bs of Inl e \<Rightarrow> Inl e | Inr bs' \<Rightarrow> Inr (JArr bs'))"
| "processBreadcrumbs v = Inl TypeError"

definition processLevels :: "props \<Rightarrow> error + props" where
  "processLevels event =
     (case processBreadcrumbs (lookup event ''breadcrumbs'') of
        Inl e \<Rightarrow> Inl e
      | Inr bs \<Rightarrow>
          Inr (assign
                (assign event ''level''
                   (if truthy (lookup event ''level'')
                    then processLevel (lookup event ''level'') else JUndefined))
                ''breadcrumbs'' bs))"

subsection \<open>The serializer\<close>

text \<open>\<open>typeof value === 'string' ? value : JSON.stringify(value)\<close>.\<close>

definition serializeValue :: "jsval \<Rightarrow> jsval" where
  "serializeValue v = (if is_string v then v else JSON_stringify v)"

text \<open>
  \<open>serialized[dataKey] = v\<close>, where \<open>serialized\<close> starts as \<open>{}\<close> and \<open>v\<close> is a string or
  \<open>undefined\<close>. The key \<open>__proto__\<close> is an accessor that \<open>{}\<close> inherits: assigning such a
  \<open>v\<close> to it creates no property and changes nothing. Every other key is assigned as an
  own property.
\<close>

definition store :: "props \<Rightarrow> string \<Rightarrow> jsval \<Rightarrow> props" where
  "store serialized dataKey v =
     (if dataKey = ''__proto__'' then serialized else assign serialized dataKey v)"

text \<open>\<open>Object.keys(data)\<close> throws a TypeError on \<open>undefined\<close> and \<open>null\<close>.\<close>

definition serializeObject :: "jsval \<Rightarrow> error + jsval" where
  "serializeObject data =
     (if nullish data then Inl TypeError
      else Inr (JObj (foldl
             (\<lambda>serialized dataKey.
                store serialized dataKey (serializeValue (lookup (own_props data) dataKey)))
             [] (map fst (own_props data)))))"

subsection \<open>Sending an event\<close>

record response =
  status :: string
  reason :: "string option"

text \<open>\<open>{...target, ...source}\<close>: the properties of \<open>source\<close> assigned in order.\<close>

definition spread :: "props \<Rightarrow> props \<Rightarrow> props" where
  "spread target source = foldl (\<lambda>acc kv. assign acc (fst kv) (snd kv)) target source"

text \<open>\<open>event.exception?.values?.[0]?.mechanism?.handled\<close>.\<close>

definition mechanismHandled :: "props \<Rightarrow> jsval" where
  "mechanismHandled event =
     opt_get (opt_get (opt_get (opt_get (lookup event ''exception'') ''values'') ''0'')
       ''mechanism'') ''handled''"

text \<open>The \<open>handled\<close> flag is a boolean or absent, as the Mechanism type declares it.\<close>

definition handledTyped :: "props \<Rightarrow> bool" where
  "handledTyped event =
     (case mechanismHandled event of
        JUndefined \<Rightarrow> True
      | JBool b \<Rightarrow> True
      | _ \<Rightarrow> False)"

definition envelopeHeader :: "props \<Rightarrow> props" where
  "envelopeHeader event =
     [(''event_id'', lookup event ''event_id''), (''sdk'', lookup event ''sdk'')]"

text \<open>The Android branch clears the breadcrumbs unless \<open>handled\<close> is \<open>false\<close>.\<close>

definition androidBreadcrumbs :: "props \<Rightarrow> props" where
  "androidBreadcrumbs event =
     (if loose_neq_false (mechanismHandled event) \<and> truthy (lookup event ''breadcrumbs'')
      then assign event ''breadcrumbs'' (JArr [])
      else event)"

text \<open>\<open>{...event, message: {message: event.message}}\<close>, in both branches.\<close>

definition wrapMessage :: "props \<Rightarrow> props" where
  "wrapMessage event =
     assign event ''message'' (JObj [(''message'', lookup event ''message'')])"

definition androidPayload :: "props \<Rightarrow> props" where
  "androidPayload event = wrapMessage (androidBreadcrumbs event)"

definition iosPayload :: "props \<Rightarrow> props" where
  "iosPayload event = wrapMessage event"

text \<open>\<open>JSON.parse(JSON.stringify(payload))\<close> of the iOS branch.\<close>

definition iosSerializedPayload :: "props \<Rightarrow> jsval" where
  "iosSerializedPayload event = JObj (roundtrip_members (iosPayload event))"

definition envelopeItem :: "props \<Rightarrow> nat \<Rightarrow> props" where
  "envelopeItem payload len =
     [(''content_type'', JStr ''application/json''),
      (''length'', JNum (int len)),
      (''type'', if nullish (lookup payload ''type'') then JStr ''event''
                 else lookup payload ''type'')]"

definition envelopeString :: "props \<Rightarrow> props \<Rightarrow> nat \<Rightarrow> string" where
  "envelopeString header payload len =
     stringify_object header @ [CHR 0x0A] @
     stringify_object (envelopeItem payload len) @ [CHR 0x0A] @
     stringify_object payload"

text \<open>\<open>event\<close> after \<open>_processLevels\<close> and \<open>delete event.sdkProcessingMetadata\<close>.\<close>

definition preparedEvent :: "props \<Rightarrow> error + props" where
  "preparedEvent event =
     (case processLevels event of
        Inl e \<Rightarrow> Inl e
      | Inr processed \<Rightarrow> Inr (delete_key processed ''sdkProcessingMetadata''))"

text \<open>
  The events that \<open>_processLevels\<close> accepts: \<open>breadcrumbs\<close> is missing, \<open>undefined\<close>,
  \<open>null\<close>, or an array none of whose elements is \<open>undefined\<close> or \<open>null\<close> (the Event type
  declares \<open>breadcrumbs?: Breadcrumb[]\<close>).
\<close>

definition breadcrumbsTyped :: "props \<Rightarrow> bool" where
  "breadcrumbsTyped event =
     (case lookup event ''breadcrumbs'' of
        JUndefined \<Rightarrow> True
      | JNull \<Rightarrow> True
      | JArr bs \<Rightarrow> list_all (\<lambda>b. \<not> nullish b) bs
      | _ \<Rightarrow> False)"

definition sent :: "bool \<Rightarrow> response" where
  "sent envelopeWasSent =
     (if envelopeWasSent then \<lparr>status = ''success'', reason = None\<rparr>
      else \<lparr>status = ''failed'', reason = None\<rparr>)"

definition sendEvent :: "native_module option \<Rightarrow> wrapper \<Rightarrow> props \<Rightarrow> response outcome" where
  "sendEvent RNSentry w ev =
     (if \<not> enableNative w then
        returns w []
          \<lparr>status = ''skipped'',
           reason = Some ''Event was skipped as native SDK is not enabled.''\<rparr>
      else case RNSentry of
        None \<Rightarrow> throws w [] NativeClientError
      | Some m \<Rightarrow>
          (case preparedEvent ev of
             Inl e \<Rightarrow> throws w [] e
           | Inr event \<Rightarrow>
               if platform w = ''android'' then
                 (let payload = androidPayload event;
                      payloadString = stringify_object payload;
                      len = (case reply_getStringBytesLength m payloadString of
                               Resolves n \<Rightarrow> n
                             | Rejects \<Rightarrow> length payloadString);
                      envelope = JStr (envelopeString (envelopeHeader event) payload len);
                      cs = [Native_getStringBytesLength payloadString,
                            Native_captureEnvelope envelope]
                  in case reply_captureEnvelope m envelope of
                       Resolves envelopeWasSent \<Rightarrow> returns w cs (sent envelopeWasSent)
                     | Rejects \<Rightarrow> throws w cs NativeRejection)
               else
                 (let envelope = JObj [(''header'', JObj (envelopeHeader event)),
                                       (''payload'', iosSerializedPayload event)];
                      cs = [Native_captureEnvelope envelope]
                  in case reply_captureEnvelope m envelope of
                       Resolves envelopeWasSent \<Rightarrow> returns w cs (sent envelopeWasSent)
                     | Rejects \<Rightarrow> throws w cs NativeRejection)))"

subsection \<open>Starting and closing the native SDK\<close>

definition initNativeSdk :: "native_module option \<Rightarrow> wrapper \<Rightarrow> props \<Rightarrow> bool outcome" where
  "initNativeSdk RNSentry w originalOptions =
     (let options = spread [(''enableNative'', JBool True),
                            (''autoInitializeNativeSdk'', JBool True)] originalOptions
      in if \<not> truthy (lookup options ''enableNative'') then
           \<lparr>after = w\<lparr>enableNative := False\<rparr>, calls = [],
            warnings = (if truthy (lookup options ''enableNativeNagger'')
                        then [''Note: Native Sentry SDK is disabled.''] else []),
            result = Inr False\<rparr>
         else if \<not> truthy (lookup options ''autoInitializeNativeSdk'') then
           \<lparr>after = w, calls = [],
            warnings = (if truthy (lookup options ''enableNativeNagger'')
                        then [''Note: Native Sentry SDK was not initialized automatically, you will need to initialize it manually. If you wish to disable the native SDK and get rid of this warning, pass enableNative: false'']
                        else []),
            result = Inr False\<rparr>
         else if \<not> truthy (lookup options ''dsn'') then
           \<lparr>after = w, calls = [],
            warnings = [''Warning: No DSN was provided. The Sentry SDK will be disabled. Native SDK will also not be initalized.''],
            result = Inr False\<rparr>
         else case RNSentry of
           None \<Rightarrow> throws w [] NativeClientError
         | Some m \<Rightarrow>
             (let filteredOptions =
                    JObj (filter (\<lambda>kv. fst kv \<notin> set [''beforeSend'', ''beforeBreadcrumb'',
                            ''integrations'', ''defaultIntegrations'', ''transport'']) options)
              in case reply_initNativeSdk m filteredOptions of
                   Resolves ready \<Rightarrow>
                     returns (w\<lparr>nativeIsReady := ready\<rparr>) [Native_initNativeSdk filteredOptions] ready
                 | Rejects \<Rightarrow> throws w [Native_initNativeSdk filteredOptions] NativeRejection))"

text \<open>
  \<open>closeNativeSdk\<close> up to the point where it hands back the promise of the native call:
  the fields of \<open>NATIVE\<close>, the calls made, and whether a native promise is pending with
  the callback attached.
\<close>

definition closeNativeSdk_begin ::
  "native_module option \<Rightarrow> wrapper \<Rightarrow> wrapper \<times> native_call list \<times> bool" where
  "closeNativeSdk_begin RNSentry w =
     (if \<not> enableNative w then (w, [], False)
      else if \<not> isModuleLoaded RNSentry then (w, [], False)
      else (w, [Native_closeNativeSdk], True))"

text \<open>The callback \<open>() => { this.enableNative = false; }\<close>.\<close>

definition closeNativeSdk_then :: "wrapper \<Rightarrow> wrapper" where
  "closeNativeSdk_then w = w\<lparr>enableNative := False\<rparr>"

text \<open>\<open>p.then(f)\<close>: \<open>f\<close> runs when \<open>p\<close> resolves, and not when it rejects.\<close>

definition closeNativeSdk_settled ::
  "wrapper \<Rightarrow> native_call list \<Rightarrow> unit promise \<Rightarrow> unit outcome" where
  "closeNativeSdk_settled w cs p =
     (case p of
        Resolves u \<Rightarrow> returns (closeNativeSdk_then w) cs ()
      | Rejects \<Rightarrow> throws w cs NativeRejection)"

definition closeNativeSdk :: "native_module option \<Rightarrow> wrapper \<Rightarrow> unit outcome" where
  "closeNativeSdk RNSentry w =
     (case closeNativeSdk_begin RNSentry w of
        (w', cs, pending) \<Rightarrow>
          (if pending then
             (case RNSentry of
                None \<Rightarrow> returns w' cs ()
              | Some m \<Rightarrow> closeNativeSdk_settled w' cs (reply_closeNativeSdk m))
           else returns w' cs ()))"

subsection \<open>Reads\<close>

definition fetchNativeRelease :: "native_module option \<Rightarrow> wrapper \<Rightarrow> jsval outcome" where
  "fetchNativeRelease RNSentry w =
     (if \<not> enableNative w then throws w [] DisabledNativeError
      else case RNSentry of
        None \<Rightarrow> throws w [] NativeClientError
      | Some m \<Rightarrow> settle w [Native_fetchNativeRelease] (reply_fetchNativeRelease m))"

definition fetchNativeSdkInfo :: "native_module option \<Rightarrow> wrapper \<Rightarrow> jsval outcome" where
  "fetchNativeSdkInfo RNSentry w =
     (if \<not> enableNative w then throws w [] DisabledNativeError
      else case RNSentry of
        None \<Rightarrow> throws w [] NativeClientError
      | Some m \<Rightarrow>
          if platform w \<noteq> ''ios'' then returns w [] JNull
          else settle w [Native_fetchNativeSdkInfo] (reply_fetchNativeSdkInfo m))"

definition fetchNativeDeviceContexts :: "native_module option \<Rightarrow> wrapper \<Rightarrow> jsval outcome" where
  "fetchNativeDeviceContexts RNSentry w =
     (if \<not> enableNative w then throws w [] DisabledNativeError
      else case RNSentry of
        None \<Rightarrow> throws w [] NativeClientError
      | Some m \<Rightarrow>
          if platform w \<noteq> ''ios'' then returns w [] (JObj [])
          else settle w [Native_fetchNativeDeviceContexts] (reply_fetchNativeDeviceContexts m))"

definition fetchNativeAppStart :: "native_module option \<Rightarrow> wrapper \<Rightarrow> jsval outcome" where
  "fetchNativeAppStart RNSentry w =
     (if \<not> enableNative w then throws w [] DisabledNativeError
      else case RNSentry of
        None \<Rightarrow> throws w [] NativeClientError
      | Some m \<Rightarrow> settle w [Native_fetchNativeAppStart] (reply_fetchNativeAppStart m))"

definition fetchNativeFrames :: "native_module option \<Rightarrow> wrapper \<Rightarrow> jsval outcome" where
  "fetchNativeFrames RNSentry w =
     (if \<not> enableNative w then throws w [] DisabledNativeError
      else case RNSentry of
        None \<Rightarrow> throws w [] NativeClientError
      | Some m \<Rightarrow> settle w [Native_fetchNativeFrames] (reply_fetchNativeFrames m))"

subsection \<open>Scope\<close>

definition nativeCrash :: "native_module option \<Rightarrow> wrapper \<Rightarrow> unit outcome" where
  "nativeCrash RNSentry w =
     (if \<not> enableNative w then returns w [] ()
      else if \<not> isModuleLoaded RNSentry then throws w [] NativeClientError
      else returns w [Native_crash] ())"

text \<open>
  \<open>const { id, ip_address, email, username, ...otherKeys } = user\<close>, for a truthy \<open>user\<close>.
\<close>

definition defaultUserKeys :: "jsval \<Rightarrow> jsval" where
  "defaultUserKeys user =
     JObj [(''email'', lookup (own_props user) ''email''),
           (''id'', lookup (own_props user) ''id''),
           (''ip_address'', lookup (own_props user) ''ip_address''),
           (''username'', lookup (own_props user) ''username'')]"

definition otherUserKeys :: "jsval \<Rightarrow> jsval" where
  "otherUserKeys user =
     JObj (filter (\<lambda>kv. fst kv \<notin> set [''id'', ''ip_address'', ''email'', ''username''])
             (own_props user))"

definition setUser :: "native_module option \<Rightarrow> wrapper \<Rightarrow> jsval \<Rightarrow> unit outcome" where
  "setUser RNSentry w user =
     (if \<not> enableNative w then returns w [] ()
      else if \<not> isModuleLoaded RNSentry then throws w [] NativeClientError
      else if truthy user then
        (case serializeObject (defaultUserKeys user) of
           Inl e \<Rightarrow> throws w [] e
         | Inr defaultKeys \<Rightarrow>
             (case serializeObject (otherUserKeys user) of
                Inl e \<Rightarrow> throws w [] e
              | Inr otherKeys \<Rightarrow> returns w [Native_setUser defaultKeys otherKeys] ()))
      else returns w [Native_setUser JNull JNull] ())"

definition setTag :: "native_module option \<Rightarrow> wrapper \<Rightarrow> string \<Rightarrow> jsval \<Rightarrow> unit outcome" where
  "setTag RNSentry w key val =
     (if \<not> enableNative w then returns w [] ()
      else if \<not> isModuleLoaded RNSentry then throws w [] NativeClientError
      else returns w [Native_setTag key (serializeValue val)] ())"

definition setExtra :: "native_module option \<Rightarrow> wrapper \<Rightarrow> string \<Rightarrow> jsval \<Rightarrow> unit outcome" where
  "setExtra RNSentry w key extra =
     (if \<not> enableNative w then returns w [] ()
      else if \<not> isModuleLoaded RNSentry then throws w [] NativeClientError
      else returns w [Native_setExtra key (serializeValue extra)] ())"

text \<open>
  The breadcrumb handed to the native module: \<open>{...breadcrumb, level: ..., data: ...}\<close>.
  Reading \<open>breadcrumb.level\<close> throws a TypeError on \<open>undefined\<close> and \<open>null\<close>; a truthy
  \<open>data\<close> is neither, so its serialization does not throw.
\<close>

definition nativeBreadcrumb :: "jsval \<Rightarrow> error + jsval" where
  "nativeBreadcrumb breadcrumb =
     (if nullish breadcrumb then Inl TypeError
      else
        (let level = lookup (own_props breadcrumb) ''level'';
             data = lookup (own_props breadcrumb) ''data''
         in case (if truthy data then serializeObject data else Inr JUndefined) of
              Inl e \<Rightarrow> Inl e
            | Inr data' \<Rightarrow>
                Inr (JObj (assign
                       (assign (own_props breadcrumb) ''level''
                          (if truthy level then processLevel level else JUndefined))
                       ''data'' data'))))"

definition addBreadcrumb :: "native_module option \<Rightarrow> wrapper \<Rightarrow> jsval \<Rightarrow> unit outcome" where
  "addBreadcrumb RNSentry w breadcrumb =
     (if \<not> enableNative w then returns w [] ()
      else if \<not> isModuleLoaded RNSentry then throws w [] NativeClientError
      else case nativeBreadcrumb breadcrumb of
        Inl e \<Rightarrow> throws w [] e
      | Inr b \<Rightarrow> returns w [Native_addBreadcrumb b] ())"

definition clearBreadcrumbs :: "native_module option \<Rightarrow> wrapper \<Rightarrow> unit outcome" where
  "clearBreadcrumbs RNSentry w =
     (if \<not> enableNative w then returns w [] ()
      else if \<not> isModuleLoaded RNSentry then throws w [] NativeClientError
      else returns w [Native_clearBreadcrumbs] ())"

definition setContext :: "native_module option \<Rightarrow> wrapper \<Rightarrow> string \<Rightarrow> jsval \<Rightarrow> unit outcome" where
  "setContext RNSentry w key context =
     (if \<not> enableNative w then returns w [] ()
      else if \<not> isModuleLoaded RNSentry then throws w [] NativeClientError
      else case (if context \<noteq> JNull then serializeObject context else Inr JNull) of
        Inl e \<Rightarrow> throws w [] e
      | Inr c \<Rightarrow> returns w [Native_setContext key c] ())"

definition disableNativeFramesTracking :: "native_module option \<Rightarrow> wrapper \<Rightarrow> unit outcome" where
  "disableNativeFramesTracking RNSentry w =
     (if \<not> enableNative w then returns w [] ()
      else if \<not> isModuleLoaded RNSentry then returns w [] ()
      else returns w [Native_disableNativeFramesTracking] ())"

definition isNativeTransportAvailable :: "native_module option \<Rightarrow> wrapper \<Rightarrow> bool" where
  "isNativeTransportAvailable RNSentry w = (enableNative w \<and> isModuleLoaded RNSentry)"

subsection \<open>Sequences of calls\<close>

text \<open>The operations of \<open>NATIVE\<close>, and the fields of \<open>NATIVE\<close> after one of them.\<close>

datatype operation =
    Op_sendEvent props
  | Op_initNativeSdk props
  | Op_closeNativeSdk
  | Op_fetchNativeRelease
  | Op_fetchNativeSdkInfo
  | Op_fetchNativeDeviceContexts
  | Op_fetchNativeAppStart
  | Op_fetchNativeFrames
  | Op_disableNativeFramesTracking
  | Op_addBreadcrumb jsval
  | Op_setContext string jsval
  | Op_clearBreadcrumbs
  | Op_setExtra string jsval
  | Op_setUser jsval
  | Op_setTag string jsval
  | Op_nativeCrash
  | Op_isNativeTransportAvailable

fun perform :: "native_module option \<Rightarrow> operation \<Rightarrow> wrapper \<Rightarrow> wrapper \<times> native_call list" where
  "perform m (Op_sendEvent e) w = (after (sendEvent m w e), calls (sendEvent m w e))"
| "perform m (Op_initNativeSdk opts) w = (after (initNativeSdk m w opts), calls (initNativeSdk m w opts))"
| "perform m Op_closeNativeSdk w = (after (closeNativeSdk m w), calls (closeNativeSdk m w))"
| "perform m Op_fetchNativeRelease w = (after (fetchNativeRelease m w), calls (fetchNativeRelease m w))"
| "perform m Op_fetchNativeSdkInfo w = (after (fetchNativeSdkInfo m w), calls (fetchNativeSdkInfo m w))"
| "perform m Op_fetchNativeDeviceContexts w =
     (after (fetchNativeDeviceContexts m w), calls (fetchNativeDeviceContexts m w))"
| "perform m Op_fetchNativeAppStart w = (after (fetchNativeAppStart m w), calls (fetchNativeAppStart m w))"
| "perform m Op_fetchNativeFrames w = (after (fetchNativeFrames m w), calls (fetchNativeFrames m w))"
| "perform m Op_disableNativeFramesTracking w =
     (after (disableNativeFramesTracking m w), calls (disableNativeFramesTracking m w))"
| "perform m (Op_addBreadcrumb b) w = (after (addBreadcrumb m w b), calls (addBreadcrumb m w b))"
| "perform m (Op_setContext k c) w = (after (setContext m w k c), calls (setContext m w k c))"
| "perform m Op_clearBreadcrumbs w = (after (clearBreadcrumbs m w), calls (clearBreadcrumbs m w))"
| "perform m (Op_setExtra k x) w = (after (setExtra m w k x), calls (setExtra m w k x))"
| "perform m (Op_setUser u) w = (after (setUser m w u), calls (setUser m w u))"
| "perform m (Op_setTag k v) w = (after (setTag m w k v), calls (setTag m w k v))"
| "perform m Op_nativeCrash w = (after (nativeCrash m w), calls (nativeCrash m w))"
| "perform m Op_isNativeTransportAvailable w = (w, [])"

fun run :: "native_module option \<Rightarrow> operation list \<Rightarrow> wrapper \<Rightarrow> wrapper \<times> native_call list" where
  "run m [] w = (w, [])"
| "run m (x # xs) w =
     (case perform m x w of
        (w', cs) \<Rightarrow> (case run m xs w' of (w'', cs') \<Rightarrow> (w'', cs @ cs')))"

subsection \<open>Initial state and sample data\<close>

text \<open>The fields of \<open>NATIVE\<close> as the object literal sets them, on the platform \<open>os\<close>.\<close>

definition initialNATIVE :: "string \<Rightarrow> wrapper" where
  "initialNATIVE os = \<lparr>enableNative = True, nativeIsReady = False, platform = os\<rparr>"

definition disabledNATIVE :: "string \<Rightarrow> wrapper" where
  "disabledNATIVE os = \<lparr>enableNative = False, nativeIsReady = False, platform = os\<rparr>"

text \<open>
  A native module all of whose promises resolve; it counts one byte for each code unit.
\<close>

definition sampleModule :: native_module where
  "sampleModule =
     \<lparr>reply_getStringBytesLength = (\<lambda>s. Resolves (length s)),
      reply_captureEnvelope = (\<lambda>envelope. Resolves True),
      reply_initNativeSdk = (\<lambda>options. Resolves True),
      reply_fetchNativeRelease = Resolves (JObj [(''version'', JStr ''1.0'')]),
      reply_fetchNativeSdkInfo = Resolves (JObj [(''name'', JStr ''sentry.cocoa'')]),
      reply_fetchNativeDeviceContexts = Resolves (JObj []),
      reply_fetchNativeAppStart = Resolves JNull,
      reply_fetchNativeFrames = Resolves JNull,
      reply_closeNativeSdk = Resolves ()\<rparr>"

text \<open>The same module with a native \<open>closeNativeSdk\<close> whose promise rejects.\<close>

definition failingCloseModule :: native_module where
  "failingCloseModule = sampleModule\<lparr>reply_closeNativeSdk := Rejects\<rparr>"

definition sampleBreadcrumb :: jsval where
  "sampleBreadcrumb = JObj [(''message'', JStr ''tap''), (''level'', JStr ''log'')]"

text \<open>An event with one breadcrumb and no exception: the \<open>handled\<close> flag is absent.\<close>

definition sampleEvent :: props where
  "sampleEvent =
     [(''event_id'', JStr ''e1''),
      (''level'', JStr ''critical''),
      (''message'', JStr ''boom''),
      (''breadcrumbs'', JArr [sampleBreadcrumb]),
      (''sdkProcessingMetadata'', JObj [])]"

definition exceptionWith :: "bool \<Rightarrow> jsval" where
  "exceptionWith handled =
     JObj [(''values'', JArr [JObj [(''type'', JStr ''Error''),
                                     (''mechanism'', JObj [(''handled'', JBool handled)])]])]"

text \<open>The same event with an exception that was handled, and with one that was not.\<close>

definition handledEvent :: props where
  "handledEvent = sampleEvent @ [(''exception'', exceptionWith True)]"

definition crashEvent :: props where
  "crashEvent = sampleEvent @ [(''exception'', exceptionWith False)]"

text \<open>An event without breadcrumbs.\<close>

definition plainEvent :: props where
  "plainEvent = [(''event_id'', JStr ''e2''), (''message'', JStr ''hello'')]"

text \<open>
  What \<open>sendEvent\<close> makes of these events before it builds a payload: the levels
  normalized, \<open>sdkProcessingMetadata\<close> removed.
\<close>

definition sampleEventPrepared :: props where
  "sampleEventPrepared =
     [(''event_id'', JStr ''e1''),
      (''level'', JStr ''fatal''),
      (''message'', JStr ''boom''),
      (''breadcrumbs'', JArr [JObj [(''message'', JStr ''tap''), (''level'', JStr ''debug'')]])]"

definition handledEventPrepared :: props where
  "handledEventPrepared = sampleEventPrepared @ [(''exception'', exceptionWith True)]"

definition crashEventPrepared :: props where
  "crashEventPrepared = sampleEventPrepared @ [(''exception'', exceptionWith False)]"

definition plainEventPrepared :: props where
  "plainEventPrepared =
     [(''event_id'', JStr ''e2''), (''message'', JStr ''hello''),
      (''level'', JUndefined), (''breadcrumbs'', JUndefined)]"

text \<open>A call of the bridge that did nothing: no field changed, no native call, no error.\<close>

definition noop :: "wrapper \<Rightarrow> unit outcome \<Rightarrow> bool" where
  "noop w out = (after out = w \<and> calls out = [] \<and> warnings out = [] \<and> result out = Inr ())"

section \<open>Properties\<close>

subsection \<open>Property lists\<close>

lemma map_of_assign: "map_of (assign kvs k v) = (map_of kvs)(k \<mapsto> v)"
  by (induction kvs) (auto simp: fun_eq_iff)

lemma lookup_assign: "lookup (assign kvs k v) k' = (if k' = k then v else lookup kvs k')"
  by (simp add: lookup_def map_of_assign)

lemma keys_assign: "set (map fst (assign kvs k v)) = insert k (set (map fst kvs))"
  by (induction kvs) auto

lemma distinct_assign: "distinct (map fst kvs) \<Longrightarrow> distinct (map fst (assign kvs k v))"
  by (induction kvs) (auto simp: keys_assign[simplified])

lemma lookup_delete_key:
  "lookup (delete_key kvs k) k' = (if k' = k then JUndefined else lookup kvs k')"
  by (induction kvs) (auto simp: lookup_def delete_key_def)

lemma mapBreadcrumbs_length: "mapBreadcrumbs bs = Inr bs' \<Longrightarrow> length bs' = length bs"
  by (induction bs arbitrary: bs') (auto split: sum.splits)

lemma mapBreadcrumbs_nth:
  "mapBreadcrumbs bs = Inr bs' \<Longrightarrow> i < length bs \<Longrightarrow> processBreadcrumb (bs ! i) = Inr (bs' ! i)"
  by (induction bs arbitrary: bs' i) (auto split: sum.splits simp: nth_Cons split: nat.splits)

lemma processLevels_level:
  "processLevels e = Inr ev \<Longrightarrow>
   lookup ev ''level'' =
     (if truthy (lookup e ''level'') then processLevel (lookup e ''level'') else JUndefined)"
  by (auto simp: processLevels_def lookup_assign split: sum.splits)

lemma processLevels_breadcrumbs:
  "processLevels e = Inr ev \<Longrightarrow>
   processBreadcrumbs (lookup e ''breadcrumbs'') = Inr (lookup ev ''breadcrumbs'')"
  by (auto simp: processLevels_def lookup_assign split: sum.splits)

lemma processLevels_other:
  "processLevels e = Inr ev \<Longrightarrow> k \<noteq> ''level'' \<Longrightarrow> k \<noteq> ''breadcrumbs'' \<Longrightarrow>
   lookup ev k = lookup e k"
  by (auto simp: processLevels_def lookup_assign split: sum.splits)

lemma stringify_None: "stringify v = None \<longleftrightarrow> v = JUndefined"
  by (cases v) auto

lemma json_roundtrip_None: "json_roundtrip v = None \<longleftrightarrow> v = JUndefined"
  by (cases v) auto

lemma stringify_roundtrip:
  "json_roundtrip v = Some y \<Longrightarrow> stringify y = stringify v"
  "stringify_elems (roundtrip_elems xs) = stringify_elems xs"
  "stringify_members (roundtrip_members kvs) = stringify_members kvs"
proof (induction v and xs and kvs arbitrary: y rule: stringify_stringify_elems_stringify_members.induct)
  case (9 x xs)
  then show ?case by (cases "json_roundtrip x") (auto simp: json_roundtrip_None)
next
  case (11 kv kvs)
  then show ?case
    by (cases "json_roundtrip (snd kv)") (auto simp: json_roundtrip_None stringify_None split: option.splits)
qed auto


lemma preparedEvent_Inr:
  "preparedEvent e = Inr ev \<Longrightarrow>
   \<exists>p. processLevels e = Inr p \<and> ev = delete_key p ''sdkProcessingMetadata''"
  by (cases "processLevels e") (simp_all add: preparedEvent_def)

lemma preparedEvent_level:
  assumes "preparedEvent e = Inr ev"
  shows "lookup ev ''level'' =
     (if truthy (lookup e ''level'') then processLevel (lookup e ''level'') else JUndefined)"
proof -
  obtain p where p: "processLevels e = Inr p" "ev = delete_key p ''sdkProcessingMetadata''"
    using preparedEvent_Inr[OF assms] by blast
  have "lookup ev ''level'' = lookup p ''level''"
    unfolding p(2) by (simp add: lookup_delete_key)
  then show ?thesis using processLevels_level[OF p(1)] by simp
qed

lemma preparedEvent_breadcrumbs:
  assumes "preparedEvent e = Inr ev"
  shows "processBreadcrumbs (lookup e ''breadcrumbs'') = Inr (lookup ev ''breadcrumbs'')"
proof -
  obtain p where p: "processLevels e = Inr p" "ev = delete_key p ''sdkProcessingMetadata''"
    using preparedEvent_Inr[OF assms] by blast
  have "lookup ev ''breadcrumbs'' = lookup p ''breadcrumbs''"
    unfolding p(2) by (simp add: lookup_delete_key)
  then show ?thesis using processLevels_breadcrumbs[OF p(1)] by simp
qed

lemma preparedEvent_other:
  assumes "preparedEvent e = Inr ev"
    and "k \<noteq> ''level''" and "k \<noteq> ''breadcrumbs''" and "k \<noteq> ''sdkProcessingMetadata''"
  shows "lookup ev k = lookup e k"
proof -
  obtain p where p: "processLevels e = Inr p" "ev = delete_key p ''sdkProcessingMetadata''"
    using preparedEvent_Inr[OF assms(1)] by blast
  have "lookup ev k = lookup p k"
    unfolding p(2) using assms(4) by (simp add: lookup_delete_key)
  then show ?thesis using processLevels_other[OF p(1) assms(2,3)] by simp
qed

lemma processBreadcrumb_level:
  "processBreadcrumb b = Inr b' \<Longrightarrow>
   lookup (own_props b') ''level'' =
     (if truthy (lookup (own_props b) ''level'')
      then processLevel (lookup (own_props b) ''level'') else JUndefined)"
  by (auto simp: processBreadcrumb_def lookup_assign split: if_splits)

lemma processBreadcrumbs_array:
  "processBreadcrumbs (JArr bs) = Inr v \<Longrightarrow>
   \<exists>bs'. v = JArr bs' \<and> mapBreadcrumbs bs = Inr bs'"
  by (auto split: sum.splits)

lemma preparedEvent_breadcrumb_levels:
  assumes "preparedEvent e = Inr ev" and "lookup e ''breadcrumbs'' = JArr bs"
  shows "\<exists>bs'. lookup ev ''breadcrumbs'' = JArr bs' \<and> length bs' = length bs \<and>
           (\<forall>i<length bs. lookup (own_props (bs' ! i)) ''level'' =
              (if truthy (lookup (own_props (bs ! i)) ''level'')
               then processLevel (lookup (own_props (bs ! i)) ''level'') else JUndefined))"
proof -
  from assms have "processBreadcrumbs (JArr bs) = Inr (lookup ev ''breadcrumbs'')"
    using preparedEvent_breadcrumbs by fastforce
  then obtain bs' where b: "lookup ev ''breadcrumbs'' = JArr bs'" "mapBreadcrumbs bs = Inr bs'"
    using processBreadcrumbs_array by blast
  have "length bs' = length bs" using b(2) by (rule mapBreadcrumbs_length)
  moreover have "\<forall>i<length bs. lookup (own_props (bs' ! i)) ''level'' =
              (if truthy (lookup (own_props (bs ! i)) ''level'')
               then processLevel (lookup (own_props (bs ! i)) ''level'') else JUndefined)"
    using mapBreadcrumbs_nth[OF b(2)] processBreadcrumb_level by blast
  ultimately show ?thesis using b(1) by blast
qed

lemma nativeBreadcrumb_level:
  "nativeBreadcrumb b = Inr nb \<Longrightarrow>
   lookup (own_props nb) ''level'' =
     (if truthy (lookup (own_props b) ''level'')
      then processLevel (lookup (own_props b) ''level'') else JUndefined)"
  by (auto simp: nativeBreadcrumb_def Let_def lookup_assign split: if_splits sum.splits)

lemma payload_lookup:
  "k \<noteq> ''message'' \<Longrightarrow> lookup (iosPayload ev) k = lookup ev k"
  "k \<noteq> ''message'' \<Longrightarrow> k \<noteq> ''breadcrumbs'' \<Longrightarrow> lookup (androidPayload ev) k = lookup ev k"
  by (auto simp: iosPayload_def androidPayload_def wrapMessage_def androidBreadcrumbs_def lookup_assign)

lemma androidPayload_breadcrumbs:
  "lookup (androidPayload ev) ''breadcrumbs'' =
     (if loose_neq_false (mechanismHandled ev) \<and> truthy (lookup ev ''breadcrumbs'')
      then JArr [] else lookup ev ''breadcrumbs'')"
  by (simp add: androidPayload_def wrapMessage_def androidBreadcrumbs_def lookup_assign)

lemmas sample_defs =
  sampleEvent_def sampleBreadcrumb_def handledEvent_def crashEvent_def plainEvent_def
  exceptionWith_def initialNATIVE_def disabledNATIVE_def sampleModule_def failingCloseModule_def

lemmas event_defs =
  preparedEvent_def processLevels_def processBreadcrumb_def processLevel_def
  lookup_def delete_key_def androidPayload_def iosPayload_def wrapMessage_def
  androidBreadcrumbs_def mechanismHandled_def opt_get_def

subsection \<open>The availability gate\<close>

lemmas op_defs =
  setUser_def setTag_def setExtra_def setContext_def addBreadcrumb_def clearBreadcrumbs_def
  nativeCrash_def disableNativeFramesTracking_def sendEvent_def
  fetchNativeRelease_def fetchNativeSdkInfo_def fetchNativeDeviceContexts_def
  fetchNativeAppStart_def fetchNativeFrames_def
  closeNativeSdk_def closeNativeSdk_begin_def closeNativeSdk_settled_def closeNativeSdk_then_def
  isModuleLoaded_def returns_def throws_def settle_def

lemma sample_wrappers:
  "enableNative (initialNATIVE os)" "platform (initialNATIVE os) = os"
  "\<not> enableNative (disabledNATIVE os)" "platform (disabledNATIVE os) = os"
  by (simp_all add: initialNATIVE_def disabledNATIVE_def)

lemma after_sendEvent: "after (sendEvent m w e) = w"
  by (simp add: sendEvent_def returns_def throws_def Let_def
           split: option.splits sum.splits promise.splits)

lemma after_fetch:
  "after (fetchNativeRelease m w) = w"
  "after (fetchNativeSdkInfo m w) = w"
  "after (fetchNativeDeviceContexts m w) = w"
  "after (fetchNativeAppStart m w) = w"
  "after (fetchNativeFrames m w) = w"
  by (simp_all add: fetchNativeRelease_def fetchNativeSdkInfo_def fetchNativeDeviceContexts_def
        fetchNativeAppStart_def fetchNativeFrames_def settle_def returns_def throws_def
        split: option.splits promise.splits)

lemma after_scope:
  "after (setUser m w u) = w"
  "after (setTag m w k v) = w"
  "after (setExtra m w k v) = w"
  "after (setContext m w k c) = w"
  "after (addBreadcrumb m w b) = w"
  "after (clearBreadcrumbs m w) = w"
  "after (nativeCrash m w) = w"
  "after (disableNativeFramesTracking m w) = w"
  by (simp_all add: setUser_def setTag_def setExtra_def setContext_def addBreadcrumb_def
        clearBreadcrumbs_def nativeCrash_def disableNativeFramesTracking_def
        returns_def throws_def split: sum.splits)

lemma enableNative_initNativeSdk:
  "enableNative (after (initNativeSdk m w opts)) \<Longrightarrow> enableNative w"
  by (simp add: initNativeSdk_def Let_def returns_def throws_def
           split: if_splits option.splits promise.splits)

lemma enableNative_closeNativeSdk:
  "enableNative (after (closeNativeSdk m w)) \<Longrightarrow> enableNative w"
  by (simp add: closeNativeSdk_def closeNativeSdk_begin_def closeNativeSdk_settled_def
        closeNativeSdk_then_def isModuleLoaded_def returns_def throws_def
           split: if_splits option.splits promise.splits)

lemma enableNative_perform: "enableNative (fst (perform m x w)) \<Longrightarrow> enableNative w"
  by (cases x)
     (auto simp: after_sendEvent after_fetch after_scope
           dest: enableNative_initNativeSdk enableNative_closeNativeSdk)

lemma enableNative_run: "enableNative (fst (run m xs w)) \<Longrightarrow> enableNative w"
proof (induction xs arbitrary: w)
  case Nil
  then show ?case by simp
next
  case (Cons x xs)
  obtain w' cs where p: "perform m x w = (w', cs)" by (cases "perform m x w")
  obtain w'' cs' where r: "run m xs w' = (w'', cs')" by (cases "run m xs w'")
  from Cons.prems p r have "enableNative (fst (run m xs w'))" by simp
  then have "enableNative w'" by (rule Cons.IH)
  then show ?case using enableNative_perform[of m x w] p by simp
qed

text \<open>
  C8. While \<open>enableNative\<close> is false, \<open>setUser\<close>, \<open>setTag\<close>, \<open>setExtra\<close>, \<open>setContext\<close>,
  \<open>addBreadcrumb\<close> and \<open>clearBreadcrumbs\<close> return at once and change nothing, \<open>sendEvent\<close>
  returns a response with status \<open>skipped\<close>, and none of them makes a native call.
\<close>

theorem disabled_is_noop:
  assumes "\<not> enableNative w"
  shows "noop w (setUser m w user) \<and>
         noop w (setTag m w key val) \<and>
         noop w (setExtra m w key extra) \<and>
         noop w (setContext m w key ctx) \<and>
         noop w (addBreadcrumb m w breadcrumb) \<and>
         noop w (clearBreadcrumbs m w) \<and>
         after (sendEvent m w event) = w \<and>
         calls (sendEvent m w event) = [] \<and>
         result (sendEvent m w event) =
           Inr \<lparr>status = ''skipped'',
                reason = Some ''Event was skipped as native SDK is not enabled.''\<rparr>"
  using assms
  by (simp add: noop_def setUser_def setTag_def setExtra_def setContext_def addBreadcrumb_def
        clearBreadcrumbs_def sendEvent_def returns_def)

theorem disabled_is_noop_witness:
  "\<not> enableNative (disabledNATIVE ''android'') \<and>
   noop (disabledNATIVE ''android'')
     (setUser (Some sampleModule) (disabledNATIVE ''android'') (JObj [(''id'', JStr ''1'')])) \<and>
   noop (disabledNATIVE ''android'')
     (setTag (Some sampleModule) (disabledNATIVE ''android'') ''k'' (JStr ''v'')) \<and>
   noop (disabledNATIVE ''android'')
     (setExtra (Some sampleModule) (disabledNATIVE ''android'') ''k'' (JNum 5)) \<and>
   noop (disabledNATIVE ''android'')
     (setContext (Some sampleModule) (disabledNATIVE ''android'') ''k'' JNull) \<and>
   noop (disabledNATIVE ''android'')
     (addBreadcrumb (Some sampleModule) (disabledNATIVE ''android'') sampleBreadcrumb) \<and>
   noop (disabledNATIVE ''android'')
     (clearBreadcrumbs (Some sampleModule) (disabledNATIVE ''android'')) \<and>
   calls (sendEvent (Some sampleModule) (disabledNATIVE ''android'') sampleEvent) = [] \<and>
   result (sendEvent (Some sampleModule) (disabledNATIVE ''android'') sampleEvent) =
     Inr \<lparr>status = ''skipped'',
          reason = Some ''Event was skipped as native SDK is not enabled.''\<rparr>"
  using disabled_is_noop
    [where w = "disabledNATIVE ''android''" and m = "Some sampleModule"
       and user = "JObj [(''id'', JStr ''1'')]" and key = "''k''" and val = "JStr ''v''"
       and extra = "JNum 5" and ctx = JNull and breadcrumb = sampleBreadcrumb
       and event = sampleEvent]
  by (simp add: disabledNATIVE_def)

text \<open>
  C2, as the code has it. While \<open>enableNative\<close> is false, the scope mutations,
  \<open>nativeCrash\<close>, \<open>closeNativeSdk\<close> and \<open>disableNativeFramesTracking\<close> return without a
  native call and without an error and \<open>sendEvent\<close> returns its \<open>skipped\<close> response; the
  five reads \<open>fetchNativeRelease\<close>, \<open>fetchNativeSdkInfo\<close>, \<open>fetchNativeDeviceContexts\<close>,
  \<open>fetchNativeAppStart\<close> and \<open>fetchNativeFrames\<close> throw \<open>_DisabledNativeError\<close>, again
  without a native call.
\<close>

theorem disabled_paths:
  assumes "\<not> enableNative w"
  shows "noop w (setUser m w user) \<and>
         noop w (setTag m w key val) \<and>
         noop w (setExtra m w key extra) \<and>
         noop w (setContext m w key ctx) \<and>
         noop w (addBreadcrumb m w breadcrumb) \<and>
         noop w (clearBreadcrumbs m w) \<and>
         noop w (nativeCrash m w) \<and>
         noop w (closeNativeSdk m w) \<and>
         noop w (disableNativeFramesTracking m w) \<and>
         sendEvent m w event =
           returns w []
             \<lparr>status = ''skipped'',
              reason = Some ''Event was skipped as native SDK is not enabled.''\<rparr> \<and>
         fetchNativeRelease m w = throws w [] DisabledNativeError \<and>
         fetchNativeSdkInfo m w = throws w [] DisabledNativeError \<and>
         fetchNativeDeviceContexts m w = throws w [] DisabledNativeError \<and>
         fetchNativeAppStart m w = throws w [] DisabledNativeError \<and>
         fetchNativeFrames m w = throws w [] DisabledNativeError"
  using assms by (simp add: noop_def op_defs)

theorem disabled_paths_witness:
  "\<not> enableNative (disabledNATIVE ''ios'') \<and>
   noop (disabledNATIVE ''ios'') (nativeCrash (Some sampleModule) (disabledNATIVE ''ios'')) \<and>
   noop (disabledNATIVE ''ios'') (closeNativeSdk (Some sampleModule) (disabledNATIVE ''ios'')) \<and>
   result (sendEvent (Some sampleModule) (disabledNATIVE ''ios'') plainEvent) =
     Inr \<lparr>status = ''skipped'',
          reason = Some ''Event was skipped as native SDK is not enabled.''\<rparr> \<and>
   result (fetchNativeSdkInfo (Some sampleModule) (disabledNATIVE ''ios'')) =
     Inl DisabledNativeError \<and>
   calls (fetchNativeSdkInfo (Some sampleModule) (disabledNATIVE ''ios'')) = [] \<and>
   result (fetchNativeFrames (Some sampleModule) (disabledNATIVE ''ios'')) =
     Inl DisabledNativeError"
  using disabled_paths
    [where w = "disabledNATIVE ''ios''" and m = "Some sampleModule" and event = plainEvent]
  by (simp add: disabledNATIVE_def returns_def throws_def)

text \<open>
  The reads do throw when native is disabled, also with the module loaded: here
  \<open>fetchNativeRelease\<close>.
\<close>

theorem fetchNativeRelease_disabled_throws:
  "\<not> enableNative (disabledNATIVE ''ios'') \<and>
   result (fetchNativeRelease (Some sampleModule) (disabledNATIVE ''ios'')) =
     Inl DisabledNativeError"
  by (simp add: fetchNativeRelease_def disabledNATIVE_def throws_def)

text \<open>
  C3, as the code has it. With \<open>enableNative\<close> true and no module, \<open>sendEvent\<close>, the five
  reads, \<open>nativeCrash\<close> and the six scope mutations throw \<open>_NativeClientError\<close> before any
  native call; \<open>closeNativeSdk\<close> and \<open>disableNativeFramesTracking\<close> return silently.
\<close>

theorem unloaded_paths:
  assumes "enableNative w"
  shows "sendEvent None w event = throws w [] NativeClientError \<and>
         fetchNativeRelease None w = throws w [] NativeClientError \<and>
         fetchNativeSdkInfo None w = throws w [] NativeClientError \<and>
         fetchNativeDeviceContexts None w = throws w [] NativeClientError \<and>
         fetchNativeAppStart None w = throws w [] NativeClientError \<and>
         fetchNativeFrames None w = throws w [] NativeClientError \<and>
         nativeCrash None w = throws w [] NativeClientError \<and>
         setUser None w user = throws w [] NativeClientError \<and>
         setTag None w key val = throws w [] NativeClientError \<and>
         setExtra None w key extra = throws w [] NativeClientError \<and>
         addBreadcrumb None w breadcrumb = throws w [] NativeClientError \<and>
         clearBreadcrumbs None w = throws w [] NativeClientError \<and>
         setContext None w key ctx = throws w [] NativeClientError \<and>
         noop w (closeNativeSdk None w) \<and>
         noop w (disableNativeFramesTracking None w)"
  using assms by (simp add: noop_def op_defs)

theorem unloaded_paths_witness:
  "enableNative (initialNATIVE ''android'') \<and>
   result (sendEvent None (initialNATIVE ''android'') sampleEvent) = Inl NativeClientError \<and>
   calls (sendEvent None (initialNATIVE ''android'') sampleEvent) = [] \<and>
   result (setTag None (initialNATIVE ''android'') ''k'' (JStr ''v'')) = Inl NativeClientError \<and>
   result (fetchNativeRelease None (initialNATIVE ''android'')) = Inl NativeClientError \<and>
   noop (initialNATIVE ''android'') (closeNativeSdk None (initialNATIVE ''android''))"
  using unloaded_paths
    [where w = "initialNATIVE ''android''" and event = sampleEvent and key = "''k''"
       and val = "JStr ''v''"]
  by (simp add: initialNATIVE_def throws_def)

text \<open>
  \<open>closeNativeSdk\<close> and \<open>disableNativeFramesTracking\<close> do not throw when the module is
  missing.
\<close>

theorem closeNativeSdk_unloaded_is_silent:
  "enableNative (initialNATIVE ''ios'') \<and>
   result (closeNativeSdk None (initialNATIVE ''ios'')) = Inr () \<and>
   result (disableNativeFramesTracking None (initialNATIVE ''ios'')) = Inr ()"
  by (simp add: op_defs initialNATIVE_def)

subsection \<open>Closing\<close>

text \<open>
  C9. \<open>closeNativeSdk\<close> leaves \<open>enableNative\<close> as it is up to the point where the native
  promise is pending (a scope mutation made then is still forwarded), leaves it as it is
  when that promise rejects, and sets it to false when the promise resolves; it becomes
  false through \<open>closeNativeSdk\<close> only after a native close call that resolved. No
  sequence of operations of the bridge turns a false \<open>enableNative\<close> into a true one.
\<close>

theorem enableNative_only_falls:
  "fst (closeNativeSdk_begin m w) = w \<and>
   (enableNative w \<longrightarrow>
      calls (setTag (Some n) (fst (closeNativeSdk_begin (Some n) w)) key val) =
        [Native_setTag key (serializeValue val)]) \<and>
   (enableNative w \<and> reply_closeNativeSdk n = Rejects \<longrightarrow>
      after (closeNativeSdk (Some n) w) = w \<and>
      calls (closeNativeSdk (Some n) w) = [Native_closeNativeSdk]) \<and>
   (enableNative w \<and> reply_closeNativeSdk n = Resolves () \<longrightarrow>
      after (closeNativeSdk (Some n) w) = w\<lparr>enableNative := False\<rparr> \<and>
      calls (closeNativeSdk (Some n) w) = [Native_closeNativeSdk]) \<and>
   (enableNative w \<and> \<not> enableNative (after (closeNativeSdk m w)) \<longrightarrow>
      (\<exists>n'. m = Some n' \<and> reply_closeNativeSdk n' = Resolves () \<and>
            calls (closeNativeSdk m w) = [Native_closeNativeSdk])) \<and>
   (\<not> enableNative w \<longrightarrow> \<not> enableNative (fst (run m ops w)))"
proof -
  have 1: "fst (closeNativeSdk_begin m w) = w"
    by (simp add: closeNativeSdk_begin_def)
  have 2: "calls (setTag (Some n) (fst (closeNativeSdk_begin (Some n) w)) key val) =
        [Native_setTag key (serializeValue val)]" if "enableNative w"
    using that by (simp add: closeNativeSdk_begin_def setTag_def isModuleLoaded_def returns_def)
  have 3: "after (closeNativeSdk (Some n) w) = w \<and>
      calls (closeNativeSdk (Some n) w) = [Native_closeNativeSdk]"
    if "enableNative w" "reply_closeNativeSdk n = Rejects"
    using that by (simp add: op_defs)
  have 4: "after (closeNativeSdk (Some n) w) = w\<lparr>enableNative := False\<rparr> \<and>
      calls (closeNativeSdk (Some n) w) = [Native_closeNativeSdk]"
    if "enableNative w" "reply_closeNativeSdk n = Resolves ()"
    using that by (simp add: op_defs)
  have 5: "\<exists>n'. m = Some n' \<and> reply_closeNativeSdk n' = Resolves () \<and>
            calls (closeNativeSdk m w) = [Native_closeNativeSdk]"
    if "enableNative w" "\<not> enableNative (after (closeNativeSdk m w))"
  proof (cases m)
    case None
    with that show ?thesis by (simp add: op_defs)
  next
    case (Some n')
    with that show ?thesis
      by (cases "reply_closeNativeSdk n'") (simp_all add: op_defs)
  qed
  have 6: "\<not> enableNative (fst (run m ops w))" if "\<not> enableNative w"
    using that enableNative_run by blast
  show ?thesis using 1 2 3 4 5 6 by blast
qed

theorem enableNative_only_falls_witness:
  "enableNative (initialNATIVE ''ios'') \<and>
   calls (setTag (Some sampleModule)
            (fst (closeNativeSdk_begin (Some sampleModule) (initialNATIVE ''ios''))) ''k'' (JStr ''v'')) =
     [Native_setTag ''k'' (JStr ''v'')] \<and>
   reply_closeNativeSdk failingCloseModule = Rejects \<and>
   after (closeNativeSdk (Some failingCloseModule) (initialNATIVE ''ios'')) = initialNATIVE ''ios'' \<and>
   reply_closeNativeSdk sampleModule = Resolves () \<and>
   after (closeNativeSdk (Some sampleModule) (initialNATIVE ''ios'')) = disabledNATIVE ''ios'' \<and>
   calls (closeNativeSdk (Some sampleModule) (initialNATIVE ''ios'')) = [Native_closeNativeSdk] \<and>
   \<not> enableNative (disabledNATIVE ''ios'') \<and>
   \<not> enableNative (fst (run (Some sampleModule)
        [Op_initNativeSdk [(''dsn'', JStr ''https://key@host/1'')], Op_setTag ''k'' (JStr ''v'')]
        (disabledNATIVE ''ios'')))"
  using
    enableNative_only_falls
      [where w = "initialNATIVE ''ios''" and n = failingCloseModule and m = "Some failingCloseModule"
         and key = "''k''" and val = "JStr ''v''"]
    enableNative_only_falls
      [where w = "initialNATIVE ''ios''" and n = sampleModule and m = "Some sampleModule"
         and key = "''k''" and val = "JStr ''v''"]
    enableNative_only_falls
      [where w = "disabledNATIVE ''ios''" and n = sampleModule and m = "Some sampleModule"
         and ops = "[Op_initNativeSdk [(''dsn'', JStr ''https://key@host/1'')],
                     Op_setTag ''k'' (JStr ''v'')]"]
  by (simp add: initialNATIVE_def disabledNATIVE_def sampleModule_def failingCloseModule_def
        closeNativeSdk_begin_def serializeValue_def)

subsection \<open>The serializer\<close>

lemma assign_fresh: "k \<notin> fst ` set kvs \<Longrightarrow> assign kvs k v = kvs @ [(k, v)]"
  by (induction kvs) auto

lemma foldl_assign_fresh:
  "distinct ks \<Longrightarrow> set ks \<inter> fst ` set acc = {} \<Longrightarrow>
   foldl (\<lambda>s k. assign s k (f k)) acc ks = acc @ map (\<lambda>k. (k, f k)) ks"
proof (induction ks arbitrary: acc)
  case Nil
  then show ?case by simp
next
  case (Cons k ks)
  from Cons.prems have fresh: "k \<notin> fst ` set acc" by auto
  from Cons.prems have "set ks \<inter> fst ` set (acc @ [(k, f k)]) = {}" by auto
  with Cons.prems Cons.IH[of "acc @ [(k, f k)]"] show ?case
    by (simp add: assign_fresh[OF fresh])
qed

lemma lookup_distinct:
  "distinct (map fst kvs) \<Longrightarrow> kv \<in> set kvs \<Longrightarrow> lookup kvs (fst kv) = snd kv"
  by (cases kv) (simp add: lookup_def)

lemma foldl_store:
  "foldl (\<lambda>s k. store s k (f k)) acc ks =
   foldl (\<lambda>s k. assign s k (f k)) acc (filter (\<lambda>k. k \<noteq> ''__proto__'') ks)"
  by (induction ks arbitrary: acc) (simp_all add: store_def)

lemma serializeObject_distinct:
  assumes "distinct (map fst kvs)"
  shows "serializeObject (JObj kvs) =
           Inr (JObj (map (\<lambda>kv. (fst kv, serializeValue (snd kv)))
                        (filter (\<lambda>kv. fst kv \<noteq> ''__proto__'') kvs)))"
proof -
  let ?ks = "filter (\<lambda>k. k \<noteq> ''__proto__'') (map fst kvs)"
  have d: "distinct ?ks" using assms by simp
  have "foldl (\<lambda>s k. store s k (serializeValue (lookup kvs k))) [] (map fst kvs) =
        foldl (\<lambda>s k. assign s k (serializeValue (lookup kvs k))) [] ?ks"
    by (rule foldl_store)
  also have "\<dots> = map (\<lambda>k. (k, serializeValue (lookup kvs k))) ?ks"
    using foldl_assign_fresh[OF d, of "[]" "\<lambda>k. serializeValue (lookup kvs k)"] by simp
  also have "\<dots> = map (\<lambda>kv. (fst kv, serializeValue (snd kv)))
                        (filter (\<lambda>kv. fst kv \<noteq> ''__proto__'') kvs)"
    using lookup_distinct[OF assms] by (simp add: filter_map comp_def)
  finally show ?thesis by (simp add: serializeObject_def)
qed

lemma serializeObject_defaultUserKeys:
  "serializeObject (defaultUserKeys user) =
     Inr (JObj [(''email'', serializeValue (lookup (own_props user) ''email'')),
                (''id'', serializeValue (lookup (own_props user) ''id'')),
                (''ip_address'', serializeValue (lookup (own_props user) ''ip_address'')),
                (''username'', serializeValue (lookup (own_props user) ''username''))])"
  unfolding defaultUserKeys_def by (rule trans[OF serializeObject_distinct]) simp_all

lemma serializeObject_otherUserKeys:
  "\<exists>other. serializeObject (otherUserKeys user) = Inr (JObj other)"
  by (simp add: serializeObject_def otherUserKeys_def)

lemma serializeValue_undefined: "serializeValue JUndefined = JUndefined"
  by (simp add: serializeValue_def JSON_stringify_def)

lemma setUser_truthy:
  assumes "enableNative w" and "truthy user"
  shows "\<exists>other. calls (setUser (Some m) w user) =
     [Native_setUser
        (JObj [(''email'', serializeValue (lookup (own_props user) ''email'')),
               (''id'', serializeValue (lookup (own_props user) ''id'')),
               (''ip_address'', serializeValue (lookup (own_props user) ''ip_address'')),
               (''username'', serializeValue (lookup (own_props user) ''username''))])
        (JObj other)]"
proof -
  obtain other where o: "serializeObject (otherUserKeys user) = Inr (JObj other)"
    using serializeObject_otherUserKeys by blast
  show ?thesis
    using assms o
    by (simp add: setUser_def isModuleLoaded_def serializeObject_defaultUserKeys returns_def)
qed

text \<open>
  C6, at the input where the code departs from it. The strings pass through and the
  number and the nested object become their JSON text, as the claim says; the key whose
  value is \<open>undefined\<close> is kept with the value \<open>undefined\<close>, which is no text.
\<close>

theorem serializeObject_undefined_value:
  "serializeObject
     (JObj [(''a'', JStr ''x''), (''b'', JNum 5), (''c'', JObj [(''k'', JNum 1)]),
            (''u'', JUndefined)]) =
   Inr (JObj [(''a'', JStr ''x''), (''b'', JStr ''5''), (''c'', JStr ''{\"k\":1}''),
              (''u'', JUndefined)])"
  by (simp add: serializeObject_distinct serializeValue_def JSON_stringify_def
        quote_def quote_char_def show_int_def show_nat.simps)

text \<open>
  C10. There is an object with a key whose value is \<open>undefined\<close> that \<open>_serializeObject\<close>
  returns with this key present and its value still \<open>undefined\<close>, not a string. And
  \<open>setUser\<close>, for a truthy user in which one of \<open>id\<close>, \<open>ip_address\<close>, \<open>email\<close>,
  \<open>username\<close> is missing (or \<open>undefined\<close>), forwards a default-keys map in which this key
  is present with the value \<open>undefined\<close>.
\<close>

theorem serializeObject_keeps_undefined:
  "(\<exists>data k out.
      map_of data k = Some JUndefined \<and>
      serializeObject (JObj data) = Inr (JObj out) \<and>
      map_of out k = Some JUndefined \<and> \<not> is_string JUndefined) \<and>
   (enableNative w \<and> truthy user \<and> k \<in> set [''id'', ''ip_address'', ''email'', ''username''] \<and>
    lookup (own_props user) k = JUndefined \<longrightarrow>
      (\<exists>defaultKeys otherKeys.
         calls (setUser (Some m) w user) = [Native_setUser (JObj defaultKeys) otherKeys] \<and>
         map_of defaultKeys k = Some JUndefined))"
proof -
  have "map_of [(''a'', JUndefined)] ''a'' = Some JUndefined \<and>
      serializeObject (JObj [(''a'', JUndefined)]) = Inr (JObj [(''a'', JUndefined)]) \<and>
      map_of [(''a'', JUndefined)] ''a'' = Some JUndefined \<and> \<not> is_string JUndefined"
    by (simp add: serializeObject_distinct serializeValue_undefined)
  then have 1: "\<exists>data k out.
      map_of data k = Some JUndefined \<and>
      serializeObject (JObj data) = Inr (JObj out) \<and>
      map_of out k = Some JUndefined \<and> \<not> is_string JUndefined"
    by blast
  have 2: "\<exists>defaultKeys otherKeys.
         calls (setUser (Some m) w user) = [Native_setUser (JObj defaultKeys) otherKeys] \<and>
         map_of defaultKeys k = Some JUndefined"
    if h: "enableNative w" "truthy user" "k \<in> set [''id'', ''ip_address'', ''email'', ''username'']"
       "lookup (own_props user) k = JUndefined"
  proof -
    obtain other where c: "calls (setUser (Some m) w user) =
     [Native_setUser
        (JObj [(''email'', serializeValue (lookup (own_props user) ''email'')),
               (''id'', serializeValue (lookup (own_props user) ''id'')),
               (''ip_address'', serializeValue (lookup (own_props user) ''ip_address'')),
               (''username'', serializeValue (lookup (own_props user) ''username''))])
        (JObj other)]"
      using setUser_truthy[OF h(1,2)] by blast
    have "map_of [(''email'', serializeValue (lookup (own_props user) ''email'')),
               (''id'', serializeValue (lookup (own_props user) ''id'')),
               (''ip_address'', serializeValue (lookup (own_props user) ''ip_address'')),
               (''username'', serializeValue (lookup (own_props user) ''username''))] k
          = Some JUndefined"
    proof -
      from h(3) consider "k = ''id''" | "k = ''ip_address''" | "k = ''email''" | "k = ''username''"
        by auto
      then show ?thesis
      proof cases
        case 1
        with h(4) show ?thesis by (simp add: serializeValue_undefined)
      next
        case 2
        with h(4) show ?thesis by (simp add: serializeValue_undefined)
      next
        case 3
        with h(4) show ?thesis by (simp add: serializeValue_undefined)
      next
        case 4
        with h(4) show ?thesis by (simp add: serializeValue_undefined)
      qed
    qed
    with c show ?thesis by blast
  qed
  show ?thesis using 1 2 by blast
qed

theorem serializeObject_keeps_undefined_witness:
  "enableNative (initialNATIVE ''ios'') \<and>
   truthy (JObj [(''id'', JStr ''1'')]) \<and>
   ''email'' \<in> set [''id'', ''ip_address'', ''email'', ''username''] \<and>
   lookup (own_props (JObj [(''id'', JStr ''1'')])) ''email'' = JUndefined \<and>
   calls (setUser (Some sampleModule) (initialNATIVE ''ios'') (JObj [(''id'', JStr ''1'')])) =
     [Native_setUser
        (JObj [(''email'', JUndefined), (''id'', JStr ''1''),
               (''ip_address'', JUndefined), (''username'', JUndefined)])
        (JObj [])]"
  using serializeObject_keeps_undefined
    [where w = "initialNATIVE ''ios''" and user = "JObj [(''id'', JStr ''1'')]"
       and k = "''email''" and m = sampleModule]
  by (simp add: initialNATIVE_def lookup_def setUser_def isModuleLoaded_def returns_def
        serializeObject_defaultUserKeys otherUserKeys_def serializeObject_distinct
        serializeValue_def JSON_stringify_def)

text \<open>
  C7, at the input where the code departs from it. A user with an \<open>id\<close> and a \<open>plan\<close> is
  split as the claim says and forwarded in one call, but the default-keys map holds
  \<open>undefined\<close>, not a string, for \<open>email\<close>, \<open>ip_address\<close> and \<open>username\<close>.
\<close>

theorem setUser_missing_default_keys:
  "calls (setUser (Some sampleModule) (initialNATIVE ''ios'')
            (JObj [(''id'', JStr ''1''), (''plan'', JStr ''pro'')])) =
     [Native_setUser
        (JObj [(''email'', JUndefined), (''id'', JStr ''1''),
               (''ip_address'', JUndefined), (''username'', JUndefined)])
        (JObj [(''plan'', JStr ''pro'')])]"
  by (simp add: initialNATIVE_def lookup_def setUser_def isModuleLoaded_def returns_def
        serializeObject_defaultUserKeys otherUserKeys_def serializeObject_distinct
        serializeValue_def JSON_stringify_def)

subsection \<open>The envelope\<close>

lemma mechanismHandled_prepared:
  assumes "preparedEvent e = Inr ev"
  shows "mechanismHandled ev = mechanismHandled e"
  using preparedEvent_other[OF assms, of "''exception''"] by (simp add: mechanismHandled_def)

lemma processBreadcrumbs_truthy:
  "processBreadcrumbs v = Inr v' \<Longrightarrow> truthy v' = truthy v"
  by (cases v) (auto split: sum.splits)

lemma truthy_prepared:
  assumes "preparedEvent e = Inr ev"
  shows "truthy (lookup ev ''breadcrumbs'') = truthy (lookup e ''breadcrumbs'')"
  using preparedEvent_breadcrumbs[OF assms] by (rule processBreadcrumbs_truthy)

lemma mapBreadcrumbs_defined:
  "list_all (\<lambda>b. \<not> nullish b) bs \<Longrightarrow> \<exists>bs'. mapBreadcrumbs bs = Inr bs'"
  by (induction bs) (auto simp: processBreadcrumb_def)

lemma preparedEvent_defined:
  assumes "breadcrumbsTyped e"
  shows "\<exists>ev. preparedEvent e = Inr ev"
proof -
  have "\<exists>v. processBreadcrumbs (lookup e ''breadcrumbs'') = Inr v"
  proof (cases "lookup e ''breadcrumbs''")
    case (JArr bs)
    with assms have "list_all (\<lambda>b. \<not> nullish b) bs" by (simp add: breadcrumbsTyped_def)
    then obtain bs' where "mapBreadcrumbs bs = Inr bs'" using mapBreadcrumbs_defined by blast
    with JArr show ?thesis by simp
  qed (use assms in \<open>simp_all add: breadcrumbsTyped_def\<close>)
  then show ?thesis by (auto simp: preparedEvent_def processLevels_def)
qed

lemma sendEvent_android:
  assumes "enableNative w" and "platform w = ''android''" and "preparedEvent e = Inr ev"
  shows "calls (sendEvent (Some m) w e) =
     [Native_getStringBytesLength (stringify_object (androidPayload ev)),
      Native_captureEnvelope
        (JStr (envelopeString (envelopeHeader ev) (androidPayload ev)
           (case reply_getStringBytesLength m (stringify_object (androidPayload ev)) of
              Resolves n \<Rightarrow> n
            | Rejects \<Rightarrow> length (stringify_object (androidPayload ev)))))]"
  using assms
  by (simp add: sendEvent_def Let_def returns_def throws_def split: promise.splits)

lemma sendEvent_ios:
  assumes "enableNative w" and "platform w \<noteq> ''android''" and "preparedEvent e = Inr ev"
  shows "calls (sendEvent (Some m) w e) =
     [Native_captureEnvelope
        (JObj [(''header'', JObj (envelopeHeader ev)),
               (''payload'', iosSerializedPayload ev)])]"
  using assms
  by (simp add: sendEvent_def Let_def returns_def throws_def split: promise.splits)

lemma androidPayload_other:
  "k \<noteq> ''breadcrumbs'' \<Longrightarrow> lookup (androidPayload ev) k = lookup (iosPayload ev) k"
  by (simp add: androidPayload_def iosPayload_def wrapMessage_def androidBreadcrumbs_def
        lookup_assign)

lemma androidPayload_same:
  "\<not> (loose_neq_false (mechanismHandled ev) \<and> truthy (lookup ev ''breadcrumbs'')) \<Longrightarrow>
   androidPayload ev = iosPayload ev"
  by (auto simp: androidPayload_def iosPayload_def androidBreadcrumbs_def)

lemma stringify_iosSerializedPayload:
  "stringify (iosSerializedPayload ev) = Some (stringify_object (iosPayload ev))"
  by (simp add: iosSerializedPayload_def stringify_object_def stringify_roundtrip(3))

lemma prepared_samples:
  "preparedEvent sampleEvent = Inr sampleEventPrepared"
  "preparedEvent handledEvent = Inr handledEventPrepared"
  "preparedEvent crashEvent = Inr crashEventPrepared"
  "preparedEvent plainEvent = Inr plainEventPrepared"
  by (simp_all add: sample_defs sampleEventPrepared_def handledEventPrepared_def
        crashEventPrepared_def plainEventPrepared_def event_defs)

lemma handled_samples:
  "mechanismHandled sampleEvent = JUndefined"
  "mechanismHandled handledEvent = JBool True"
  "mechanismHandled crashEvent = JBool False"
  "mechanismHandled plainEvent = JUndefined"
  by (simp_all add: sample_defs event_defs show_nat.simps)

lemma typed_samples:
  "breadcrumbsTyped sampleEvent"
  "breadcrumbsTyped handledEvent"
  "breadcrumbsTyped crashEvent"
  "breadcrumbsTyped plainEvent"
  by (simp_all add: sample_defs breadcrumbsTyped_def lookup_def)

lemma handledTyped_samples:
  "handledTyped sampleEvent"
  "handledTyped handledEvent"
  "handledTyped crashEvent"
  "handledTyped plainEvent"
  by (simp_all add: handledTyped_def handled_samples)

text \<open>
  C1, as the code has it. On Android, for an event whose breadcrumbs are typed and
  whose \<open>handled\<close> flag is a boolean or absent, \<open>sendEvent\<close> asks for the byte length of the payload text and captures the envelope
  built from it. If \<open>handled\<close> is \<open>false\<close>, the payload carries the breadcrumbs of the
  event, each with its level normalized. If \<open>handled\<close> is \<open>true\<close> or absent and the event
  has breadcrumbs, the payload carries an empty breadcrumb list.
\<close>

theorem android_breadcrumbs:
  assumes "enableNative w" and "platform w = ''android''" and "breadcrumbsTyped e"
    and "handledTyped e"
  shows "\<exists>ev. preparedEvent e = Inr ev \<and>
         calls (sendEvent (Some m) w e) =
           [Native_getStringBytesLength (stringify_object (androidPayload ev)),
            Native_captureEnvelope
              (JStr (envelopeString (envelopeHeader ev) (androidPayload ev)
                 (case reply_getStringBytesLength m (stringify_object (androidPayload ev)) of
                    Resolves n \<Rightarrow> n
                  | Rejects \<Rightarrow> length (stringify_object (androidPayload ev)))))] \<and>
         (mechanismHandled e = JBool False \<longrightarrow>
            lookup (androidPayload ev) ''breadcrumbs'' = lookup ev ''breadcrumbs'' \<and>
            processBreadcrumbs (lookup e ''breadcrumbs'') = Inr (lookup ev ''breadcrumbs'')) \<and>
         ((mechanismHandled e = JBool True \<or> mechanismHandled e = JUndefined) \<and>
          truthy (lookup e ''breadcrumbs'') \<longrightarrow>
            lookup (androidPayload ev) ''breadcrumbs'' = JArr [])"
proof -
  obtain ev where p: "preparedEvent e = Inr ev"
    using preparedEvent_defined[OF assms(3)] by blast
  note h = mechanismHandled_prepared[OF p]
  note t = truthy_prepared[OF p]
  have 2: "lookup (androidPayload ev) ''breadcrumbs'' = lookup ev ''breadcrumbs''"
    if "mechanismHandled e = JBool False"
    using that by (simp add: androidPayload_breadcrumbs h)
  have 3: "lookup (androidPayload ev) ''breadcrumbs'' = JArr []"
    if "mechanismHandled e = JBool True \<or> mechanismHandled e = JUndefined"
      and "truthy (lookup e ''breadcrumbs'')"
    using that by (auto simp: androidPayload_breadcrumbs h t)
  show ?thesis
    using p sendEvent_android[OF assms(1,2) p] preparedEvent_breadcrumbs[OF p] 2 3 by blast
qed

theorem android_breadcrumbs_witness:
  "enableNative (initialNATIVE ''android'') \<and>
   platform (initialNATIVE ''android'') = ''android'' \<and>
   breadcrumbsTyped crashEvent \<and> handledTyped crashEvent \<and>
   preparedEvent crashEvent = Inr crashEventPrepared \<and>
   mechanismHandled crashEvent = JBool False \<and>
   lookup (androidPayload crashEventPrepared) ''breadcrumbs'' =
     JArr [JObj [(''message'', JStr ''tap''), (''level'', JStr ''debug'')]] \<and>
   breadcrumbsTyped handledEvent \<and> handledTyped handledEvent \<and>
   preparedEvent handledEvent = Inr handledEventPrepared \<and>
   mechanismHandled handledEvent = JBool True \<and>
   truthy (lookup handledEvent ''breadcrumbs'') \<and>
   lookup (androidPayload handledEventPrepared) ''breadcrumbs'' = JArr []"
proof -
  note c = android_breadcrumbs
    [OF sample_wrappers(1) sample_wrappers(2) typed_samples(3) handledTyped_samples(3),
     of sampleModule]
  note h = android_breadcrumbs
    [OF sample_wrappers(1) sample_wrappers(2) typed_samples(2) handledTyped_samples(2),
     of sampleModule]
  have t: "truthy (lookup handledEvent ''breadcrumbs'')"
    by (simp add: sample_defs lookup_def)
  have 1: "lookup (androidPayload crashEventPrepared) ''breadcrumbs'' =
             lookup crashEventPrepared ''breadcrumbs''"
    using c handled_samples(3) prepared_samples(3) by auto
  have 2: "lookup (androidPayload handledEventPrepared) ''breadcrumbs'' = JArr []"
    using h handled_samples(2) prepared_samples(2) t by auto
  have 3: "lookup crashEventPrepared ''breadcrumbs'' =
             JArr [JObj [(''message'', JStr ''tap''), (''level'', JStr ''debug'')]]"
    by (simp add: crashEventPrepared_def sampleEventPrepared_def lookup_def)
  show ?thesis
    using 1 2 3 t prepared_samples(2,3) handled_samples(2,3) sample_wrappers(1,2)
      typed_samples(2,3) handledTyped_samples(2,3)
    by simp
qed

text \<open>
  An event without an exception, so without a \<open>handled\<close> flag, and with one breadcrumb:
  the payload in the envelope has no breadcrumb.
\<close>

theorem absent_handled_clears_breadcrumbs:
  "mechanismHandled sampleEvent = JUndefined \<and>
   lookup sampleEvent ''breadcrumbs'' = JArr [sampleBreadcrumb] \<and>
   calls (sendEvent (Some sampleModule) (initialNATIVE ''android'') sampleEvent) =
     [Native_getStringBytesLength
        ''{\"event_id\":\"e1\",\"level\":\"fatal\",\"message\":{\"message\":\"boom\"},\"breadcrumbs\":[]}'',
      Native_captureEnvelope
        (JStr (''{\"event_id\":\"e1\"}'' @ [CHR 0x0A] @
               ''{\"content_type\":\"application/json\",\"length\":79,\"type\":\"event\"}'' @
               [CHR 0x0A] @
               ''{\"event_id\":\"e1\",\"level\":\"fatal\",\"message\":{\"message\":\"boom\"},\"breadcrumbs\":[]}''))]"
  by code_simp

text \<open>
  C4, as the code has it. For an event whose breadcrumbs are typed and whose \<open>handled\<close>
  flag is a boolean or absent, the Android branch
  captures the payload as text and the iOS branch as a structured value, and the two
  payloads agree on every field but \<open>breadcrumbs\<close>. If
  \<open>handled\<close> is \<open>false\<close> or the event has no breadcrumbs, the payload text sent on Android
  is the JSON text of the structured payload sent on iOS. If \<open>handled\<close> is \<open>true\<close> or
  absent and the event has breadcrumbs, the Android payload has an empty breadcrumb list
  and the iOS payload has the breadcrumbs of the event with their levels normalized.
\<close>

theorem payload_equivalence:
  assumes "enableNative wa" and "platform wa = ''android''"
    and "enableNative wi" and "platform wi \<noteq> ''android''"
    and "breadcrumbsTyped e" and "handledTyped e"
  shows "\<exists>ev. preparedEvent e = Inr ev \<and>
         calls (sendEvent (Some m) wa e) =
           [Native_getStringBytesLength (stringify_object (androidPayload ev)),
            Native_captureEnvelope
              (JStr (envelopeString (envelopeHeader ev) (androidPayload ev)
                 (case reply_getStringBytesLength m (stringify_object (androidPayload ev)) of
                    Resolves n \<Rightarrow> n
                  | Rejects \<Rightarrow> length (stringify_object (androidPayload ev)))))] \<and>
         calls (sendEvent (Some m) wi e) =
           [Native_captureEnvelope
              (JObj [(''header'', JObj (envelopeHeader ev)),
                     (''payload'', iosSerializedPayload ev)])] \<and>
         (mechanismHandled e = JBool False \<or> \<not> truthy (lookup e ''breadcrumbs'') \<longrightarrow>
            stringify (iosSerializedPayload ev) = Some (stringify_object (androidPayload ev))) \<and>
         (\<forall>k. k \<noteq> ''breadcrumbs'' \<longrightarrow>
            lookup (androidPayload ev) k = lookup (iosPayload ev) k) \<and>
         ((mechanismHandled e = JBool True \<or> mechanismHandled e = JUndefined) \<and>
          truthy (lookup e ''breadcrumbs'') \<longrightarrow>
            lookup (androidPayload ev) ''breadcrumbs'' = JArr [] \<and>
            lookup (iosPayload ev) ''breadcrumbs'' = lookup ev ''breadcrumbs'' \<and>
            processBreadcrumbs (lookup e ''breadcrumbs'') = Inr (lookup ev ''breadcrumbs''))"
proof -
  obtain ev where p: "preparedEvent e = Inr ev"
    using preparedEvent_defined[OF assms(5)] by blast
  note h = mechanismHandled_prepared[OF p]
  note t = truthy_prepared[OF p]
  have 3: "stringify (iosSerializedPayload ev) = Some (stringify_object (androidPayload ev))"
    if "mechanismHandled e = JBool False \<or> \<not> truthy (lookup e ''breadcrumbs'')"
  proof -
    from that have "\<not> (loose_neq_false (mechanismHandled ev) \<and> truthy (lookup ev ''breadcrumbs''))"
      by (auto simp: h t)
    then have "androidPayload ev = iosPayload ev" by (rule androidPayload_same)
    then show ?thesis by (simp add: stringify_iosSerializedPayload)
  qed
  have 4: "\<forall>k. k \<noteq> ''breadcrumbs'' \<longrightarrow> lookup (androidPayload ev) k = lookup (iosPayload ev) k"
    by (simp add: androidPayload_other)
  have 5: "lookup (androidPayload ev) ''breadcrumbs'' = JArr []"
    if "mechanismHandled e = JBool True \<or> mechanismHandled e = JUndefined"
      and "truthy (lookup e ''breadcrumbs'')"
    using that by (auto simp: androidPayload_breadcrumbs h t)
  have 6: "lookup (iosPayload ev) ''breadcrumbs'' = lookup ev ''breadcrumbs''"
    by (simp add: payload_lookup)
  show ?thesis
    using p sendEvent_android[OF assms(1,2) p] sendEvent_ios[OF assms(3,4) p]
      preparedEvent_breadcrumbs[OF p] 3 4 5 6 by blast
qed

theorem payload_equivalence_witness:
  "enableNative (initialNATIVE ''android'') \<and>
   platform (initialNATIVE ''android'') = ''android'' \<and>
   enableNative (initialNATIVE ''ios'') \<and>
   platform (initialNATIVE ''ios'') \<noteq> ''android'' \<and>
   breadcrumbsTyped crashEvent \<and> breadcrumbsTyped plainEvent \<and>
   breadcrumbsTyped handledEvent \<and>
   handledTyped crashEvent \<and> handledTyped plainEvent \<and> handledTyped handledEvent \<and>
   preparedEvent crashEvent = Inr crashEventPrepared \<and>
   mechanismHandled crashEvent = JBool False \<and>
   stringify (iosSerializedPayload crashEventPrepared) =
     Some (stringify_object (androidPayload crashEventPrepared)) \<and>
   preparedEvent plainEvent = Inr plainEventPrepared \<and>
   \<not> truthy (lookup plainEvent ''breadcrumbs'') \<and>
   stringify (iosSerializedPayload plainEventPrepared) =
     Some (stringify_object (androidPayload plainEventPrepared)) \<and>
   preparedEvent handledEvent = Inr handledEventPrepared \<and>
   mechanismHandled handledEvent = JBool True \<and>
   truthy (lookup handledEvent ''breadcrumbs'') \<and>
   lookup (androidPayload handledEventPrepared) ''level'' =
     lookup (iosPayload handledEventPrepared) ''level'' \<and>
   lookup (androidPayload handledEventPrepared) ''breadcrumbs'' = JArr [] \<and>
   lookup (iosPayload handledEventPrepared) ''breadcrumbs'' =
     JArr [JObj [(''message'', JStr ''tap''), (''level'', JStr ''debug'')]]"
proof -
  have ios: "platform (initialNATIVE ''ios'') \<noteq> ''android''"
    by (simp add: initialNATIVE_def)
  note c = payload_equivalence
    [OF sample_wrappers(1) sample_wrappers(2) sample_wrappers(1) ios typed_samples(3)
       handledTyped_samples(3),
     of sampleModule]
  note p = payload_equivalence
    [OF sample_wrappers(1) sample_wrappers(2) sample_wrappers(1) ios typed_samples(4)
       handledTyped_samples(4),
     of sampleModule]
  note h = payload_equivalence
    [OF sample_wrappers(1) sample_wrappers(2) sample_wrappers(1) ios typed_samples(2)
       handledTyped_samples(2),
     of sampleModule]
  have t: "truthy (lookup handledEvent ''breadcrumbs'')"
    and f: "\<not> truthy (lookup plainEvent ''breadcrumbs'')"
    by (simp_all add: sample_defs lookup_def)
  have 1: "stringify (iosSerializedPayload crashEventPrepared) =
             Some (stringify_object (androidPayload crashEventPrepared))"
    using c handled_samples(3) prepared_samples(3) by auto
  have 2: "stringify (iosSerializedPayload plainEventPrepared) =
             Some (stringify_object (androidPayload plainEventPrepared))"
    using p f prepared_samples(4) by auto
  have 3: "lookup (androidPayload handledEventPrepared) ''level'' =
             lookup (iosPayload handledEventPrepared) ''level''"
    using h prepared_samples(2) by auto
  have 4: "lookup (androidPayload handledEventPrepared) ''breadcrumbs'' = JArr [] \<and>
           lookup (iosPayload handledEventPrepared) ''breadcrumbs'' =
             lookup handledEventPrepared ''breadcrumbs''"
    using h handled_samples(2) prepared_samples(2) t by auto
  have 5: "lookup handledEventPrepared ''breadcrumbs'' =
             JArr [JObj [(''message'', JStr ''tap''), (''level'', JStr ''debug'')]]"
    by (simp add: handledEventPrepared_def sampleEventPrepared_def lookup_def)
  show ?thesis
    using 1 2 3 4 5 t f ios prepared_samples(2,3,4) handled_samples(2,3) sample_wrappers(1,2)
      typed_samples(2,3,4) handledTyped_samples(2,3,4)
    by simp
qed

text \<open>
  The event with one breadcrumb and no \<open>handled\<close> flag: the Android payload text is not
  the JSON text of the iOS payload, which still has the breadcrumb.
\<close>

theorem android_ios_payloads_differ:
  "preparedEvent sampleEvent = Inr sampleEventPrepared \<and>
   stringify_object (androidPayload sampleEventPrepared) =
     ''{\"event_id\":\"e1\",\"level\":\"fatal\",\"message\":{\"message\":\"boom\"},\"breadcrumbs\":[]}'' \<and>
   stringify (iosSerializedPayload sampleEventPrepared) =
     Some ''{\"event_id\":\"e1\",\"level\":\"fatal\",\"message\":{\"message\":\"boom\"},\"breadcrumbs\":[{\"message\":\"tap\",\"level\":\"debug\"}]}'' \<and>
   stringify (iosSerializedPayload sampleEventPrepared) \<noteq>
     Some (stringify_object (androidPayload sampleEventPrepared)) \<and>
   lookup (androidPayload sampleEventPrepared) ''breadcrumbs'' = JArr [] \<and>
   lookup (own_props (iosSerializedPayload sampleEventPrepared)) ''breadcrumbs'' =
     JArr [JObj [(''message'', JStr ''tap''), (''level'', JStr ''debug'')]] \<and>
   calls (sendEvent (Some sampleModule) (initialNATIVE ''ios'') sampleEvent) =
     [Native_captureEnvelope
        (JObj [(''header'', JObj [(''event_id'', JStr ''e1''), (''sdk'', JUndefined)]),
               (''payload'',
                JObj [(''event_id'', JStr ''e1''), (''level'', JStr ''fatal''),
                      (''message'', JObj [(''message'', JStr ''boom'')]),
                      (''breadcrumbs'',
                       JArr [JObj [(''message'', JStr ''tap''), (''level'', JStr ''debug'')]])])])]"
  by code_simp

subsection \<open>Severity normalization\<close>

lemma keys_roundtrip_members: "fst ` set (roundtrip_members kvs) \<subseteq> fst ` set kvs"
  by (induction kvs) (auto split: option.splits)

lemma lookup_absent: "k \<notin> fst ` set kvs \<Longrightarrow> lookup kvs k = JUndefined"
  by (simp add: lookup_def map_of_eq_None_iff[THEN iffD2])

lemma lookup_roundtrip_members:
  "distinct (map fst kvs) \<Longrightarrow>
   lookup (roundtrip_members kvs) k = roundtrip_value (lookup kvs k)"
proof (induction kvs)
  case Nil
  then show ?case by (simp add: lookup_def roundtrip_value_def)
next
  case (Cons kv kvs)
  show ?case
  proof (cases "fst kv = k")
    case True
    with Cons.prems have "k \<notin> fst ` set kvs" by auto
    then have "k \<notin> fst ` set (roundtrip_members kvs)"
      using keys_roundtrip_members by blast
    then have u: "lookup (roundtrip_members kvs) k = JUndefined" by (rule lookup_absent)
    have a: "lookup (kv # kvs) k = snd kv"
      using True by (cases kv) (simp add: lookup_def)
    show ?thesis
    proof (cases "json_roundtrip (snd kv)")
      case None
      then show ?thesis using u a by (simp add: roundtrip_value_def)
    next
      case (Some y)
      then show ?thesis using a True by (simp add: roundtrip_value_def lookup_def)
    qed
  next
    case False
    have a: "lookup (kv # kvs) k = lookup kvs k"
      using False by (cases kv) (simp add: lookup_def)
    have b: "lookup (roundtrip_members (kv # kvs)) k = lookup (roundtrip_members kvs) k"
      using False by (cases "json_roundtrip (snd kv)") (simp_all add: lookup_def)
    from Cons.prems have "distinct (map fst kvs)" by simp
    then show ?thesis using Cons.IH a b by simp
  qed
qed

lemma distinct_delete_key: "distinct (map fst kvs) \<Longrightarrow> distinct (map fst (delete_key kvs k))"
  by (simp add: delete_key_def distinct_map_filter)

lemma distinct_preparedEvent:
  assumes "preparedEvent e = Inr ev" and "distinct (map fst e)"
  shows "distinct (map fst ev)"
proof -
  obtain p where p: "processLevels e = Inr p" "ev = delete_key p ''sdkProcessingMetadata''"
    using preparedEvent_Inr[OF assms(1)] by blast
  from p(1) have "distinct (map fst p)"
    using assms(2) by (auto simp: processLevels_def distinct_assign split: sum.splits)
  then show ?thesis unfolding p(2) by (rule distinct_delete_key)
qed

lemma distinct_iosPayload: "distinct (map fst ev) \<Longrightarrow> distinct (map fst (iosPayload ev))"
  by (simp add: iosPayload_def wrapMessage_def distinct_assign)

lemma lookup_iosSerializedPayload:
  assumes "distinct (map fst ev)"
  shows "lookup (own_props (iosSerializedPayload ev)) k = roundtrip_value (lookup (iosPayload ev) k)"
  using lookup_roundtrip_members[OF distinct_iosPayload[OF assms]]
  by (simp add: iosSerializedPayload_def)

lemma truthy_not_nullish: "truthy v \<Longrightarrow> \<not> nullish v"
  by (cases v) simp_all

lemma nativeBreadcrumb_defined:
  "\<not> nullish b \<Longrightarrow> \<exists>nb. nativeBreadcrumb b = Inr nb"
  by (auto simp: nativeBreadcrumb_def Let_def serializeObject_def truthy_not_nullish
           split: sum.splits)

lemma handledTyped_cases:
  "handledTyped e \<longleftrightarrow> mechanismHandled e = JUndefined \<or> mechanismHandled e = JBool True \<or>
     mechanismHandled e = JBool False"
  by (cases "mechanismHandled e") (auto simp: handledTyped_def)

lemma roundtrip_elems_length: "length (roundtrip_elems xs) = length xs"
  by (induction xs) simp_all

lemma roundtrip_elems_nth:
  "i < length xs \<Longrightarrow>
   roundtrip_elems xs ! i = (case json_roundtrip (xs ! i) of None \<Rightarrow> JNull | Some y \<Rightarrow> y)"
  by (induction xs arbitrary: i) (simp_all add: nth_Cons split: nat.splits)

lemma processBreadcrumb_object:
  "processBreadcrumb b = Inr b' \<Longrightarrow>
   b' = JObj (assign (own_props b) ''level''
          (if truthy (lookup (own_props b) ''level'')
           then processLevel (lookup (own_props b) ''level'') else JUndefined))"
  by (auto simp: processBreadcrumb_def split: if_splits)

lemma sent_breadcrumb_level:
  assumes "processBreadcrumb b = Inr b'" and "distinct (map fst (own_props b))"
  shows "lookup (own_props (case json_roundtrip b' of None \<Rightarrow> JNull | Some y \<Rightarrow> y)) ''level'' =
         roundtrip_value
           (if truthy (lookup (own_props b) ''level'')
            then processLevel (lookup (own_props b) ''level'') else JUndefined)"
proof -
  let ?N = "if truthy (lookup (own_props b) ''level'')
            then processLevel (lookup (own_props b) ''level'') else JUndefined"
  have b': "b' = JObj (assign (own_props b) ''level'' ?N)"
    using processBreadcrumb_object[OF assms(1)] .
  have d: "distinct (map fst (assign (own_props b) ''level'' ?N))"
    using assms(2) by (rule distinct_assign)
  have "lookup (roundtrip_members (assign (own_props b) ''level'' ?N)) ''level'' =
        roundtrip_value (lookup (assign (own_props b) ''level'' ?N) ''level'')"
    using d by (rule lookup_roundtrip_members)
  then show ?thesis unfolding b' by (simp add: lookup_assign)
qed

lemma ios_sent_breadcrumbs:
  assumes p: "preparedEvent e = Inr ev" and d: "distinct (map fst e)"
    and bs: "lookup e ''breadcrumbs'' = JArr bs"
  shows "\<exists>sent. lookup (own_props (iosSerializedPayload ev)) ''breadcrumbs'' = JArr sent \<and>
           length sent = length bs \<and>
           (\<forall>i<length bs. distinct (map fst (own_props (bs ! i))) \<longrightarrow>
              lookup (own_props (sent ! i)) ''level'' =
                roundtrip_value
                  (if truthy (lookup (own_props (bs ! i)) ''level'')
                   then processLevel (lookup (own_props (bs ! i)) ''level'') else JUndefined))"
proof -
  have "processBreadcrumbs (JArr bs) = Inr (lookup ev ''breadcrumbs'')"
    using preparedEvent_breadcrumbs[OF p] bs by simp
  then obtain bs' where b: "lookup ev ''breadcrumbs'' = JArr bs'" "mapBreadcrumbs bs = Inr bs'"
    using processBreadcrumbs_array by blast
  have len: "length bs' = length bs" using b(2) by (rule mapBreadcrumbs_length)
  have "lookup (own_props (iosSerializedPayload ev)) ''breadcrumbs'' =
        roundtrip_value (lookup (iosPayload ev) ''breadcrumbs'')"
    using lookup_iosSerializedPayload[OF distinct_preparedEvent[OF p d]] .
  also have "\<dots> = JArr (roundtrip_elems bs')"
    by (simp add: payload_lookup b(1) roundtrip_value_def)
  finally have s: "lookup (own_props (iosSerializedPayload ev)) ''breadcrumbs'' =
                   JArr (roundtrip_elems bs')" .
  have "lookup (own_props (roundtrip_elems bs' ! i)) ''level'' =
          roundtrip_value
            (if truthy (lookup (own_props (bs ! i)) ''level'')
             then processLevel (lookup (own_props (bs ! i)) ''level'') else JUndefined)"
    if i: "i < length bs" and di: "distinct (map fst (own_props (bs ! i)))" for i
  proof -
    have pb: "processBreadcrumb (bs ! i) = Inr (bs' ! i)"
      using mapBreadcrumbs_nth[OF b(2) i] .
    have "roundtrip_elems bs' ! i =
          (case json_roundtrip (bs' ! i) of None \<Rightarrow> JNull | Some y \<Rightarrow> y)"
      using i len by (simp add: roundtrip_elems_nth)
    then show ?thesis using sent_breadcrumb_level[OF pb di] by simp
  qed
  then show ?thesis using s len by (auto simp: roundtrip_elems_length)
qed

text \<open>
  C5. \<open>_processLevel\<close> maps \<open>critical\<close> to \<open>fatal\<close> and \<open>log\<close> to \<open>debug\<close> and is the
  identity on every other level. \<open>sendEvent\<close> applies it to the event it sends: on
  Android the envelope it captures is built from a payload whose top-level level is the
  normalized one and whose breadcrumbs are those of the processed event, or none; on
  iOS it captures the JSON copy of a payload with the normalized level and the processed
  breadcrumbs, and for an event with pairwise distinct keys the copy itself has the
  normalized level at the top and in each breadcrumb. Every breadcrumb of the processed
  event carries its normalized level (a level that is missing or falsy becomes
  \<open>undefined\<close>). \<open>addBreadcrumb\<close> forwards a breadcrumb with its normalized level.
\<close>

theorem severity_normalization:
  "processLevel (JStr ''critical'') = JStr ''fatal'' \<and>
   processLevel (JStr ''log'') = JStr ''debug'' \<and>
   (level \<noteq> JStr ''critical'' \<and> level \<noteq> JStr ''log'' \<longrightarrow> processLevel level = level) \<and>
   (enableNative w \<and> breadcrumbsTyped e \<longrightarrow>
      (\<exists>ev. preparedEvent e = Inr ev \<and>
         (platform w = ''android'' \<and> handledTyped e \<longrightarrow>
            calls (sendEvent (Some m) w e) =
              [Native_getStringBytesLength (stringify_object (androidPayload ev)),
               Native_captureEnvelope
                 (JStr (envelopeString (envelopeHeader ev) (androidPayload ev)
                    (case reply_getStringBytesLength m (stringify_object (androidPayload ev)) of
                       Resolves n \<Rightarrow> n
                     | Rejects \<Rightarrow> length (stringify_object (androidPayload ev)))))] \<and>
            lookup (androidPayload ev) ''level'' =
              (if truthy (lookup e ''level'') then processLevel (lookup e ''level'')
               else JUndefined) \<and>
            (lookup (androidPayload ev) ''breadcrumbs'' = lookup ev ''breadcrumbs'' \<or>
             lookup (androidPayload ev) ''breadcrumbs'' = JArr [])) \<and>
         (platform w \<noteq> ''android'' \<longrightarrow>
            calls (sendEvent (Some m) w e) =
              [Native_captureEnvelope
                 (JObj [(''header'', JObj (envelopeHeader ev)),
                        (''payload'', iosSerializedPayload ev)])] \<and>
            stringify (iosSerializedPayload ev) = Some (stringify_object (iosPayload ev)) \<and>
            lookup (iosPayload ev) ''level'' =
              (if truthy (lookup e ''level'') then processLevel (lookup e ''level'')
               else JUndefined) \<and>
            lookup (iosPayload ev) ''breadcrumbs'' = lookup ev ''breadcrumbs'' \<and>
            (distinct (map fst e) \<longrightarrow>
               lookup (own_props (iosSerializedPayload ev)) ''level'' =
                 roundtrip_value
                   (if truthy (lookup e ''level'') then processLevel (lookup e ''level'')
                    else JUndefined) \<and>
               (lookup e ''breadcrumbs'' = JArr bs \<longrightarrow>
                  (\<exists>sent. lookup (own_props (iosSerializedPayload ev)) ''breadcrumbs'' = JArr sent \<and>
                     length sent = length bs \<and>
                     (\<forall>i<length bs. distinct (map fst (own_props (bs ! i))) \<longrightarrow>
                        lookup (own_props (sent ! i)) ''level'' =
                          roundtrip_value
                            (if truthy (lookup (own_props (bs ! i)) ''level'')
                             then processLevel (lookup (own_props (bs ! i)) ''level'')
                             else JUndefined)))))) \<and>
         (lookup e ''breadcrumbs'' = JArr bs \<longrightarrow>
            (\<exists>bs'. lookup ev ''breadcrumbs'' = JArr bs' \<and> length bs' = length bs \<and>
               (\<forall>i<length bs. lookup (own_props (bs' ! i)) ''level'' =
                  (if truthy (lookup (own_props (bs ! i)) ''level'')
                   then processLevel (lookup (own_props (bs ! i)) ''level'')
                   else JUndefined)))))) \<and>
   (enableNative w \<and> \<not> nullish b \<longrightarrow>
      (\<exists>nb. nativeBreadcrumb b = Inr nb \<and>
         calls (addBreadcrumb (Some m) w b) = [Native_addBreadcrumb nb] \<and>
         lookup (own_props nb) ''level'' =
           (if truthy (lookup (own_props b) ''level'')
            then processLevel (lookup (own_props b) ''level'') else JUndefined)))"
proof -
  let ?N = "if truthy (lookup e ''level'') then processLevel (lookup e ''level'') else JUndefined"
  have 1: "processLevel (JStr ''critical'') = JStr ''fatal''"
    and 2: "processLevel (JStr ''log'') = JStr ''debug''"
    and 3: "level \<noteq> JStr ''critical'' \<and> level \<noteq> JStr ''log'' \<longrightarrow> processLevel level = level"
    by (simp_all add: processLevel_def)
  have 4: "\<exists>ev. preparedEvent e = Inr ev \<and>
         (platform w = ''android'' \<and> handledTyped e \<longrightarrow>
            calls (sendEvent (Some m) w e) =
              [Native_getStringBytesLength (stringify_object (androidPayload ev)),
               Native_captureEnvelope
                 (JStr (envelopeString (envelopeHeader ev) (androidPayload ev)
                    (case reply_getStringBytesLength m (stringify_object (androidPayload ev)) of
                       Resolves n \<Rightarrow> n
                     | Rejects \<Rightarrow> length (stringify_object (androidPayload ev)))))] \<and>
            lookup (androidPayload ev) ''level'' = ?N \<and>
            (lookup (androidPayload ev) ''breadcrumbs'' = lookup ev ''breadcrumbs'' \<or>
             lookup (androidPayload ev) ''breadcrumbs'' = JArr [])) \<and>
         (platform w \<noteq> ''android'' \<longrightarrow>
            calls (sendEvent (Some m) w e) =
              [Native_captureEnvelope
                 (JObj [(''header'', JObj (envelopeHeader ev)),
                        (''payload'', iosSerializedPayload ev)])] \<and>
            stringify (iosSerializedPayload ev) = Some (stringify_object (iosPayload ev)) \<and>
            lookup (iosPayload ev) ''level'' = ?N \<and>
            lookup (iosPayload ev) ''breadcrumbs'' = lookup ev ''breadcrumbs'' \<and>
            (distinct (map fst e) \<longrightarrow>
               lookup (own_props (iosSerializedPayload ev)) ''level'' = roundtrip_value ?N \<and>
               (lookup e ''breadcrumbs'' = JArr bs \<longrightarrow>
                  (\<exists>sent. lookup (own_props (iosSerializedPayload ev)) ''breadcrumbs'' = JArr sent \<and>
                     length sent = length bs \<and>
                     (\<forall>i<length bs. distinct (map fst (own_props (bs ! i))) \<longrightarrow>
                        lookup (own_props (sent ! i)) ''level'' =
                          roundtrip_value
                            (if truthy (lookup (own_props (bs ! i)) ''level'')
                             then processLevel (lookup (own_props (bs ! i)) ''level'')
                             else JUndefined)))))) \<and>
         (lookup e ''breadcrumbs'' = JArr bs \<longrightarrow>
            (\<exists>bs'. lookup ev ''breadcrumbs'' = JArr bs' \<and> length bs' = length bs \<and>
               (\<forall>i<length bs. lookup (own_props (bs' ! i)) ''level'' =
                  (if truthy (lookup (own_props (bs ! i)) ''level'')
                   then processLevel (lookup (own_props (bs ! i)) ''level'')
                   else JUndefined))))"
    if en: "enableNative w" and ty: "breadcrumbsTyped e"
  proof -
    obtain ev where p: "preparedEvent e = Inr ev"
      using preparedEvent_defined[OF ty] by blast
    have lv: "lookup ev ''level'' = ?N" using preparedEvent_level[OF p] .
    have a1: "calls (sendEvent (Some m) w e) =
              [Native_getStringBytesLength (stringify_object (androidPayload ev)),
               Native_captureEnvelope
                 (JStr (envelopeString (envelopeHeader ev) (androidPayload ev)
                    (case reply_getStringBytesLength m (stringify_object (androidPayload ev)) of
                       Resolves n \<Rightarrow> n
                     | Rejects \<Rightarrow> length (stringify_object (androidPayload ev)))))]"
      if "platform w = ''android''"
      using sendEvent_android[OF en that p] .
    have a2: "lookup (androidPayload ev) ''level'' = ?N"
      using lv by (simp add: payload_lookup)
    have a3: "lookup (androidPayload ev) ''breadcrumbs'' = lookup ev ''breadcrumbs'' \<or>
             lookup (androidPayload ev) ''breadcrumbs'' = JArr []"
      by (simp add: androidPayload_breadcrumbs)
    have i1: "calls (sendEvent (Some m) w e) =
              [Native_captureEnvelope
                 (JObj [(''header'', JObj (envelopeHeader ev)),
                        (''payload'', iosSerializedPayload ev)])]"
      if "platform w \<noteq> ''android''"
      using sendEvent_ios[OF en that p] .
    have i2: "stringify (iosSerializedPayload ev) = Some (stringify_object (iosPayload ev))"
      by (rule stringify_iosSerializedPayload)
    have i3: "lookup (iosPayload ev) ''level'' = ?N"
      using lv by (simp add: payload_lookup)
    have i4: "lookup (iosPayload ev) ''breadcrumbs'' = lookup ev ''breadcrumbs''"
      by (simp add: payload_lookup)
    have i5: "lookup (own_props (iosSerializedPayload ev)) ''level'' = roundtrip_value ?N"
      if "distinct (map fst e)"
      using lookup_iosSerializedPayload[OF distinct_preparedEvent[OF p that], of "''level''"] i3
      by simp
    have i6: "\<exists>sent. lookup (own_props (iosSerializedPayload ev)) ''breadcrumbs'' = JArr sent \<and>
                     length sent = length bs \<and>
                     (\<forall>i<length bs. distinct (map fst (own_props (bs ! i))) \<longrightarrow>
                        lookup (own_props (sent ! i)) ''level'' =
                          roundtrip_value
                            (if truthy (lookup (own_props (bs ! i)) ''level'')
                             then processLevel (lookup (own_props (bs ! i)) ''level'')
                             else JUndefined))"
      if "distinct (map fst e)" "lookup e ''breadcrumbs'' = JArr bs"
      using ios_sent_breadcrumbs[OF p that] .
    have b1: "\<exists>bs'. lookup ev ''breadcrumbs'' = JArr bs' \<and> length bs' = length bs \<and>
               (\<forall>i<length bs. lookup (own_props (bs' ! i)) ''level'' =
                  (if truthy (lookup (own_props (bs ! i)) ''level'')
                   then processLevel (lookup (own_props (bs ! i)) ''level'')
                   else JUndefined))"
      if "lookup e ''breadcrumbs'' = JArr bs"
      using preparedEvent_breadcrumb_levels[OF p that] .
    show ?thesis
      apply (rule exI[of _ ev])
      using p a1 a2 a3 i1 i2 i3 i4 i5 i6 b1 by blast
  qed
  have 5: "\<exists>nb. nativeBreadcrumb b = Inr nb \<and>
         calls (addBreadcrumb (Some m) w b) = [Native_addBreadcrumb nb] \<and>
         lookup (own_props nb) ''level'' =
           (if truthy (lookup (own_props b) ''level'')
            then processLevel (lookup (own_props b) ''level'') else JUndefined)"
    if en: "enableNative w" and nn: "\<not> nullish b"
  proof -
    obtain nb where nb: "nativeBreadcrumb b = Inr nb"
      using nativeBreadcrumb_defined[OF nn] by blast
    have "calls (addBreadcrumb (Some m) w b) = [Native_addBreadcrumb nb]"
      using en nb by (simp add: addBreadcrumb_def isModuleLoaded_def returns_def)
    then show ?thesis using nb nativeBreadcrumb_level[OF nb] by blast
  qed
  show ?thesis using 1 2 3 4 5 by blast
qed

theorem severity_normalization_witness:
  "JStr ''info'' \<noteq> JStr ''critical'' \<and> JStr ''info'' \<noteq> JStr ''log'' \<and>
   processLevel (JStr ''info'') = JStr ''info'' \<and>
   enableNative (initialNATIVE ''android'') \<and>
   platform (initialNATIVE ''android'') = ''android'' \<and>
   breadcrumbsTyped crashEvent \<and> handledTyped crashEvent \<and>
   lookup crashEvent ''level'' = JStr ''critical'' \<and>
   lookup crashEvent ''breadcrumbs'' =
     JArr [JObj [(''message'', JStr ''tap''), (''level'', JStr ''log'')]] \<and>
   calls (sendEvent (Some sampleModule) (initialNATIVE ''android'') crashEvent) =
     [Native_getStringBytesLength (stringify_object (androidPayload crashEventPrepared)),
      Native_captureEnvelope
        (JStr (envelopeString (envelopeHeader crashEventPrepared)
                 (androidPayload crashEventPrepared)
                 (length (stringify_object (androidPayload crashEventPrepared)))))] \<and>
   stringify_object (androidPayload crashEventPrepared) =
     ''{\"event_id\":\"e1\",\"level\":\"fatal\",\"message\":{\"message\":\"boom\"},\"breadcrumbs\":[{\"message\":\"tap\",\"level\":\"debug\"}],\"exception\":{\"values\":[{\"type\":\"Error\",\"mechanism\":{\"handled\":false}}]}}'' \<and>
   enableNative (initialNATIVE ''ios'') \<and>
   platform (initialNATIVE ''ios'') \<noteq> ''android'' \<and>
   breadcrumbsTyped sampleEvent \<and>
   distinct (map fst sampleEvent) \<and>
   distinct (map fst (own_props sampleBreadcrumb)) \<and>
   lookup sampleEvent ''level'' = JStr ''critical'' \<and>
   lookup sampleEvent ''breadcrumbs'' = JArr [sampleBreadcrumb] \<and>
   calls (sendEvent (Some sampleModule) (initialNATIVE ''ios'') sampleEvent) =
     [Native_captureEnvelope
        (JObj [(''header'', JObj [(''event_id'', JStr ''e1''), (''sdk'', JUndefined)]),
               (''payload'',
                JObj [(''event_id'', JStr ''e1''), (''level'', JStr ''fatal''),
                      (''message'', JObj [(''message'', JStr ''boom'')]),
                      (''breadcrumbs'',
                       JArr [JObj [(''message'', JStr ''tap''), (''level'', JStr ''debug'')]])])])] \<and>
   \<not> nullish sampleBreadcrumb \<and>
   calls (addBreadcrumb (Some sampleModule) (initialNATIVE ''android'') sampleBreadcrumb) =
     [Native_addBreadcrumb
        (JObj [(''message'', JStr ''tap''), (''level'', JStr ''debug''), (''data'', JUndefined)])]"
proof -
  note a = severity_normalization
    [where level = "JStr ''info''" and w = "initialNATIVE ''android''" and e = crashEvent
       and m = sampleModule and bs = "[sampleBreadcrumb]" and b = sampleBreadcrumb]
  note i = severity_normalization
    [where level = "JStr ''info''" and w = "initialNATIVE ''ios''" and e = sampleEvent
       and m = sampleModule and bs = "[sampleBreadcrumb]" and b = sampleBreadcrumb]
  have ios: "platform (initialNATIVE ''ios'') \<noteq> ''android''"
    by (simp add: initialNATIVE_def)
  have nn: "\<not> nullish sampleBreadcrumb" by (simp add: sampleBreadcrumb_def)
  have info: "JStr ''info'' \<noteq> JStr ''critical''" "JStr ''info'' \<noteq> JStr ''log''" by simp_all
  have 1: "processLevel (JStr ''info'') = JStr ''info''"
    using a info by blast
  have 2: "calls (sendEvent (Some sampleModule) (initialNATIVE ''android'') crashEvent) =
     [Native_getStringBytesLength (stringify_object (androidPayload crashEventPrepared)),
      Native_captureEnvelope
        (JStr (envelopeString (envelopeHeader crashEventPrepared)
                 (androidPayload crashEventPrepared)
                 (length (stringify_object (androidPayload crashEventPrepared)))))]"
    using a sample_wrappers(1,2) typed_samples(3) handledTyped_samples(3) prepared_samples(3)
    by (auto simp: sampleModule_def)
  have 3: "calls (sendEvent (Some sampleModule) (initialNATIVE ''ios'') sampleEvent) =
     [Native_captureEnvelope
        (JObj [(''header'', JObj (envelopeHeader sampleEventPrepared)),
               (''payload'', iosSerializedPayload sampleEventPrepared)])]"
    using i sample_wrappers(1) ios typed_samples(1) prepared_samples(1) by auto
  have 4: "\<exists>nb. nativeBreadcrumb sampleBreadcrumb = Inr nb \<and>
     calls (addBreadcrumb (Some sampleModule) (initialNATIVE ''android'') sampleBreadcrumb) =
       [Native_addBreadcrumb nb]"
    using a sample_wrappers(1) nn by blast
  have e1: "stringify_object (androidPayload crashEventPrepared) =
     ''{\"event_id\":\"e1\",\"level\":\"fatal\",\"message\":{\"message\":\"boom\"},\"breadcrumbs\":[{\"message\":\"tap\",\"level\":\"debug\"}],\"exception\":{\"values\":[{\"type\":\"Error\",\"mechanism\":{\"handled\":false}}]}}''"
    by code_simp
  have e2: "envelopeHeader sampleEventPrepared = [(''event_id'', JStr ''e1''), (''sdk'', JUndefined)]"
    by code_simp
  have e3: "iosSerializedPayload sampleEventPrepared =
                JObj [(''event_id'', JStr ''e1''), (''level'', JStr ''fatal''),
                      (''message'', JObj [(''message'', JStr ''boom'')]),
                      (''breadcrumbs'',
                       JArr [JObj [(''message'', JStr ''tap''), (''level'', JStr ''debug'')]])]"
    by code_simp
  have e4: "nativeBreadcrumb sampleBreadcrumb =
     Inr (JObj [(''message'', JStr ''tap''), (''level'', JStr ''debug''), (''data'', JUndefined)])"
    by code_simp
  have e5: "lookup crashEvent ''level'' = JStr ''critical''"
    "lookup crashEvent ''breadcrumbs'' =
       JArr [JObj [(''message'', JStr ''tap''), (''level'', JStr ''log'')]]"
    "lookup sampleEvent ''level'' = JStr ''critical''"
    "lookup sampleEvent ''breadcrumbs'' = JArr [sampleBreadcrumb]"
    "distinct (map fst sampleEvent)"
    "distinct (map fst (own_props sampleBreadcrumb))"
    by (simp_all add: sample_defs lookup_def)
  show ?thesis
    using info 1 2 3 4 e1 e2 e3 e4 e5 ios nn sample_wrappers(1,2) typed_samples(1,3)
      handledTyped_samples(3)
    by simp
qed

end
